theory Spec2Isabelle
  imports Complex_Main
begin

section \<open>Route construction of the OpenDrive actor\<close>

text \<open>
  A shallow embedding of \<^verbatim>\<open>OpenDriveActor.cpp\<close>: \<^verbatim>\<open>BuildRoutes\<close>,
  \<^verbatim>\<open>RemoveRoutes\<close>, the spawner and debug helpers and the editor hook
  \<^verbatim>\<open>PostEditChangeProperty\<close>.

  Conventions of the embedding.
  \<^item> A C++ \<^verbatim>\<open>float\<close> is the real number it stands for. The accumulation
    \<^verbatim>\<open>Dist += RoadAccuracy\<close> of the stepping loop is the binary32 addition: the
    exact sum rounded to the nearest binary32 value, ties to even. NaN and infinite
    inputs are not modelled. The subtraction \<^verbatim>\<open>MaxDist - 0.1f\<close> and the vector
    additions are taken without rounding: no branch of the code depends on them
    beyond the comparisons of \<^verbatim>\<open>clamp\<close>.
  \<^item> Road identifiers (\<^verbatim>\<open>id_type\<close>) are natural numbers and lane identifiers are
    integers; the code only compares them.
  \<^item> A pointer to an engine actor is an address in the world's actor store, or
    \<open>None\<close> for \<^verbatim>\<open>nullptr\<close>. Two equal pointers name the same actor.
    \<^verbatim>\<open>SpawnActor\<close> always yields a new actor.
  \<^item> \<^verbatim>\<open>check(...)\<close> is active, as in editor and development builds. A failed check,
    an access \<^verbatim>\<open>v[0]\<close> into an empty vector and a dereference of an invalid pointer
    end the run with an \<open>error\<close> value.
  \<^item> A run that never ends is the value \<open>None\<close>.
  \<^item> The road map and the waypoint generator of LibCarla are parameters: the record
    \<open>road_map\<close> holds the queries \<^verbatim>\<open>BuildRoutes\<close> makes, over an abstract type of
    waypoints. The outcome of loading the map is a parameter as well.
  \<^item> The code under \<^verbatim>\<open>WITH_EDITOR\<close> is present.
\<close>

subsection \<open>Engine value types\<close>

record FVector =
  X :: real
  Y :: real
  Z :: real

record FRotator =
  Pitch :: real
  Yaw :: real
  Roll :: real

record Transform =
  location :: FVector
  rotation :: FRotator

definition FVector_add :: "FVector \<Rightarrow> FVector \<Rightarrow> FVector" where
  "FVector_add a b = \<lparr>X = X a + X b, Y = Y a + Y b, Z = Z a + Z b\<rparr>"

subsection \<open>Errors and results\<close>

datatype error =
    Check_Dist_lt_MaxDist
  | Check_NewWaypoint_size_eq_1
  | Check_Waypoints_size_ge_2
  | Vector_index_out_of_range
  | Invalid_pointer_dereference

type_synonym 'a result = "(error + 'a) option"

definition bind_result :: "'a result \<Rightarrow> ('a \<Rightarrow> 'b result) \<Rightarrow> 'b result" where
  "bind_result r f =
     (case r of None \<Rightarrow> None | Some (Inl e) \<Rightarrow> Some (Inl e) | Some (Inr x) \<Rightarrow> f x)"

subsection \<open>The road map queried by the builder\<close>

type_synonym id_type = nat

record road =
  Length :: real

text \<open>
  \<open>GetRoad\<close> is \<^verbatim>\<open>map.GetRoad(id)\<close>, \<open>None\<close> for a null road pointer;
  \<open>GenerateLaneEnd\<close>, \<open>GetSuccessors\<close> and \<open>GetNext\<close> are the static functions of
  \<^verbatim>\<open>WaypointGenerator\<close>; the other fields are the methods of \<^verbatim>\<open>Waypoint\<close>.
\<close>

record 'w road_map =
  GetRoad :: "id_type \<Rightarrow> road option"
  GenerateLaneEnd :: "'w list"
  GetSuccessors :: "'w \<Rightarrow> 'w list"
  GetNext :: "'w \<Rightarrow> real \<Rightarrow> 'w list"
  GetRoadId :: "'w \<Rightarrow> id_type"
  GetLaneId :: "'w \<Rightarrow> int"
  IsIntersection :: "'w \<Rightarrow> bool"
  ComputeTransform :: "'w \<Rightarrow> Transform"

text \<open>The outcome of \<^verbatim>\<open>OpenDrive::Load\<close>: the error text and the map.\<close>

record 'w load_result =
  ParseError :: string
  map_ptr :: "'w road_map"

text \<open>
  Modelled from the spec: \<^verbatim>\<open>carla::geom::Math::clamp\<close> is not in the source file.
  The spec says the value is protected by the clamp's lower bound (0) and bounded above
  by the lane length: \<open>clamp a lo hi\<close> is \<open>a\<close> limited to the interval from \<open>lo\<close> to
  \<open>hi\<close>.
\<close>

definition clamp :: "real \<Rightarrow> real \<Rightarrow> real \<Rightarrow> real" where
  "clamp a lo hi = min (max a lo) hi"

subsection \<open>Actors and the world\<close>

type_synonym actor_ptr = "nat option"

record ARoutePlanner =
  bIsIntersection :: bool
  BoxExtent :: FVector
  ActorRotation :: FRotator
  ActorLocation :: FVector
  Routes :: "FVector list list"
  Probabilities :: "real list"

record AVehicleSpawnPoint =
  SpawnerRotation :: FRotator
  SpawnerLocation :: FVector

datatype actor =
    RoutePlannerActor ARoutePlanner
  | VehicleSpawnPointActor AVehicleSpawnPoint

record world =
  actors :: "nat \<rightharpoonup> actor"
  next_actor :: nat
  debug_lines :: "FVector list list"

record AOpenDriveActor =
  RoutePlanners :: "actor_ptr list"
  VehicleSpawners :: "actor_ptr list"
  RoadAccuracy :: real
  TriggersHeight :: real
  SpawnersHeight :: real
  bGenerateRoutes :: bool
  bRemoveRoutes :: bool
  bShowDebug :: bool
  bRemoveCurrentSpawners :: bool
  bAddSpawners :: bool
  bOnIntersections :: bool

definition zero_vector :: FVector where
  "zero_vector = \<lparr>X = 0, Y = 0, Z = 0\<rparr>"

definition zero_rotator :: FRotator where
  "zero_rotator = \<lparr>Pitch = 0, Yaw = 0, Roll = 0\<rparr>"

text \<open>A freshly spawned route planner: no routes yet.\<close>

definition new_route_planner :: ARoutePlanner where
  "new_route_planner =
     \<lparr>bIsIntersection = False, BoxExtent = zero_vector, ActorRotation = zero_rotator,
      ActorLocation = zero_vector, Routes = [], Probabilities = []\<rparr>"

definition new_spawn_point :: AVehicleSpawnPoint where
  "new_spawn_point = \<lparr>SpawnerRotation = zero_rotator, SpawnerLocation = zero_vector\<rparr>"

text \<open>\<^verbatim>\<open>GetWorld()->SpawnActor<T>()\<close>: the new actor gets the next free address.\<close>

definition put_actor :: "nat \<Rightarrow> actor \<Rightarrow> world \<Rightarrow> world" where
  "put_actor a x w = w\<lparr>actors := (actors w)(a \<mapsto> x)\<rparr>"

definition SpawnActor :: "actor \<Rightarrow> world \<Rightarrow> nat \<times> world" where
  "SpawnActor x w =
     (next_actor w, (put_actor (next_actor w) x w)\<lparr>next_actor := Suc (next_actor w)\<rparr>)"

text \<open>\<^verbatim>\<open>Actor->Destroy()\<close>: the actor leaves the world; harmless when it already has.\<close>

definition Destroy :: "nat \<Rightarrow> world \<Rightarrow> world" where
  "Destroy p w = w\<lparr>actors := (actors w)(p := None)\<rparr>"

text \<open>Reading and writing a route planner through a pointer.\<close>

definition get_planner :: "world \<Rightarrow> actor_ptr \<Rightarrow> ARoutePlanner option" where
  "get_planner w p =
     (case p of
        None \<Rightarrow> None
      | Some a \<Rightarrow>
          (case actors w a of
             Some (RoutePlannerActor r) \<Rightarrow> Some r
           | _ \<Rightarrow> None))"

definition update_planner ::
  "actor_ptr \<Rightarrow> (ARoutePlanner \<Rightarrow> ARoutePlanner) \<Rightarrow> world \<Rightarrow> error + world" where
  "update_planner p f w =
     (case p of
        None \<Rightarrow> Inl Invalid_pointer_dereference
      | Some a \<Rightarrow>
          (case actors w a of
             Some (RoutePlannerActor r) \<Rightarrow> Inr (put_actor a (RoutePlannerActor (f r)) w)
           | _ \<Rightarrow> Inl Invalid_pointer_dereference))"

text \<open>
  Modelled from the spec: \<^verbatim>\<open>ARoutePlanner::AddRoute\<close> is not in the source file.
  The spec says a route group holds a list of (weight, polyline) entries and that the
  builder inserts (weight, polyline) into the anchor's group.
\<close>

definition AddRoute :: "actor_ptr \<Rightarrow> real \<Rightarrow> FVector list \<Rightarrow> world \<Rightarrow> error + world" where
  "AddRoute p probability routePoints w =
     update_planner p
       (\<lambda>r. r\<lparr>Routes := Routes r @ [routePoints],
              Probabilities := Probabilities r @ [probability]\<rparr>) w"

subsection \<open>Binary32 addition\<close>

text \<open>
  The nearest integer, ties to even; the exponent of the binade of a real number in
  binary32 (at least \<open>-126\<close>, where the subnormal numbers begin); the distance between
  neighbouring binary32 values there (24 significant bits); and the rounding of a real
  number to binary32. A number at or beyond \<open>2^128 - 2^103\<close> rounds to an infinity in
  binary32: it is left as it is here, beyond every finite binary32 value as the
  infinity is.
\<close>

definition round_to_even :: "real \<Rightarrow> int" where
  "round_to_even q =
     (if q - of_int \<lfloor>q\<rfloor> < 1 / 2 then \<lfloor>q\<rfloor>
      else if 1 / 2 < q - of_int \<lfloor>q\<rfloor> then \<lfloor>q\<rfloor> + 1
      else if even \<lfloor>q\<rfloor> then \<lfloor>q\<rfloor> else \<lfloor>q\<rfloor> + 1)"

definition float32_exponent :: "real \<Rightarrow> int" where
  "float32_exponent x = max \<lfloor>log 2 \<bar>x\<bar>\<rfloor> (- 126)"

definition float32_ulp :: "real \<Rightarrow> real" where
  "float32_ulp x = 2 powi (float32_exponent x - 23)"

definition round_float32 :: "real \<Rightarrow> real" where
  "round_float32 x =
     (if x = 0 then 0
      else if 2 ^ 128 - 2 ^ 103 \<le> \<bar>x\<bar> then x
      else of_int (round_to_even (x / float32_ulp x)) * float32_ulp x)"

text \<open>The C++ \<^verbatim>\<open>a + b\<close> on two \<^verbatim>\<open>float\<close> values.\<close>

definition float_add :: "real \<Rightarrow> real \<Rightarrow> real" where
  "float_add a b = round_float32 (a + b)"

subsection \<open>Sampling one lane\<close>

text \<open>\<^verbatim>\<open>WaypointVector2FVectorArray\<close>: one position per waypoint, raised by the trigger height.\<close>

definition WaypointVector2FVectorArray ::
  "'w road_map \<Rightarrow> 'w list \<Rightarrow> real \<Rightarrow> FVector list" where
  "WaypointVector2FVectorArray m Waypoints TriggersHeight' =
     map (\<lambda>wp. FVector_add (location (ComputeTransform m wp))
                 \<lparr>X = 0, Y = 0, Z = TriggersHeight'\<rparr>) Waypoints"

text \<open>
  The stepping loop
  \<^verbatim>\<open>for (float Dist = RoadAccuracy; Dist < MaxDist; Dist += RoadAccuracy)\<close>,
  entered with the current \<open>Dist\<close> and the waypoints collected so far.
\<close>

partial_function (option) sample_loop ::
  "'w road_map \<Rightarrow> 'w \<Rightarrow> real \<Rightarrow> real \<Rightarrow> real \<Rightarrow> 'w list \<Rightarrow> (error + 'w list) option" where
  "sample_loop m Successor RoadAccuracy' MaxDist Dist Waypoints =
     (if Dist < MaxDist then
        (if \<not> Dist < MaxDist then Some (Inl Check_Dist_lt_MaxDist)
         else if length (GetNext m Successor Dist) \<noteq> 1
           then Some (Inl Check_NewWaypoint_size_eq_1)
         else sample_loop m Successor RoadAccuracy' MaxDist (float_add Dist RoadAccuracy')
                (Waypoints @ [GetNext m Successor Dist ! 0]))
      else Some (Inr Waypoints))"

text \<open>
  The final sample, \<^verbatim>\<open>GetNext(Successor, clamp(MaxDist - 0.1f, 0.f, MaxDist))[0]\<close>, and
  the check on the size of the vector; \<open>final_distance\<close> is the distance passed to
  \<^verbatim>\<open>GetNext\<close>.
\<close>

definition final_distance :: "real \<Rightarrow> real" where
  "final_distance MaxDist = clamp (MaxDist - 1 / 10) 0 MaxDist"

definition final_sample :: "'w road_map \<Rightarrow> 'w \<Rightarrow> real \<Rightarrow> 'w list \<Rightarrow> 'w list result" where
  "final_sample m Successor MaxDist Waypoints =
     (case GetNext m Successor (final_distance MaxDist) of
        [] \<Rightarrow> Some (Inl Vector_index_out_of_range)
      | wp # _ \<Rightarrow>
          (if \<not> 2 \<le> length (Waypoints @ [wp]) then Some (Inl Check_Waypoints_size_ge_2)
           else Some (Inr (Waypoints @ [wp]))))"

text \<open>The waypoints of one successor lane: the body of the inner loop up to the check.\<close>

definition sample_waypoints :: "'w road_map \<Rightarrow> real \<Rightarrow> 'w \<Rightarrow> 'w list result" where
  "sample_waypoints m RoadAccuracy' Successor =
     (case GetRoad m (GetRoadId m Successor) of
        None \<Rightarrow> Some (Inl Invalid_pointer_dereference)
      | Some r \<Rightarrow>
          bind_result
            (sample_loop m Successor RoadAccuracy' (Length r) RoadAccuracy' [Successor])
            (final_sample m Successor (Length r)))"

subsection \<open>BuildRoutes\<close>

text \<open>
  The state the two loops of \<^verbatim>\<open>BuildRoutes\<close> work on: the world, the actor's
  \<^verbatim>\<open>RoutePlanners\<close> array and the local vector \<^verbatim>\<open>AlreadyVisited\<close>.
\<close>

record build_state =
  World :: world
  Planners :: "actor_ptr list"
  AlreadyVisited :: "(id_type \<times> int) list"

text \<open>\<^verbatim>\<open>if (RoutePlanner == nullptr) { ... }\<close>: the planner of the anchor is created.\<close>

definition materialize ::
  "'w road_map \<Rightarrow> real \<Rightarrow> 'w \<Rightarrow> 'w list \<Rightarrow> actor_ptr \<Rightarrow> world \<Rightarrow> error + actor_ptr \<times> world" where
  "materialize m TriggersHeight' EndLaneWaypoint Successors RoutePlanner w =
     (if RoutePlanner = None then
        (case SpawnActor (RoutePlannerActor new_route_planner) w of
           (p, w1) \<Rightarrow>
             (case update_planner (Some p)
                     (\<lambda>r. r\<lparr>bIsIntersection := list_ex (IsIntersection m) Successors,
                            BoxExtent := \<lparr>X = 70, Y = 70, Z = 50\<rparr>,
                            ActorRotation := rotation (ComputeTransform m EndLaneWaypoint),
                            ActorLocation :=
                              FVector_add (location (ComputeTransform m EndLaneWaypoint))
                                \<lparr>X = 0, Y = 0, Z = TriggersHeight'\<rparr>\<rparr>) w1 of
                Inl e \<Rightarrow> Inl e
              | Inr w2 \<Rightarrow> Inr (Some p, w2)))
      else Inr (RoutePlanner, w))"

text \<open>What follows the sampling: the positions go into the planner and the array.\<close>

definition add_positions ::
  "'w road_map \<Rightarrow> real \<Rightarrow> 'w \<Rightarrow> 'w list \<Rightarrow> (id_type \<times> int) \<Rightarrow> build_state \<times> actor_ptr \<Rightarrow>
   'w list \<Rightarrow> (build_state \<times> actor_ptr) result" where
  "add_positions m TriggersHeight' EndLaneWaypoint Successors Identifier st Waypoints =
     (case materialize m TriggersHeight' EndLaneWaypoint Successors (snd st) (World (fst st)) of
        Inl e \<Rightarrow> Some (Inl e)
      | Inr (rp, w1) \<Rightarrow>
          (case AddRoute rp 1
                  (WaypointVector2FVectorArray m Waypoints TriggersHeight') w1 of
             Inl e \<Rightarrow> Some (Inl e)
           | Inr w2 \<Rightarrow>
               Some (Inr (\<lparr>World = w2, Planners = Planners (fst st) @ [rp],
                           AlreadyVisited = AlreadyVisited (fst st) @ [Identifier]\<rparr>, rp))))"

text \<open>\<^verbatim>\<open>std::make_pair(RoadId, LaneId)\<close>, the identifier of the successor's lane.\<close>

definition Identifier :: "'w road_map \<Rightarrow> 'w \<Rightarrow> id_type \<times> int" where
  "Identifier m Successor = (GetRoadId m Successor, GetLaneId m Successor)"

text \<open>
  One turn of \<^verbatim>\<open>for (auto &&Successor : Successors)\<close>: the lane is sampled unless
  \<^verbatim>\<open>std::any_of\<close> finds its identifier in \<^verbatim>\<open>AlreadyVisited\<close>.
\<close>

definition visit_successor ::
  "'w road_map \<Rightarrow> real \<Rightarrow> real \<Rightarrow> 'w \<Rightarrow> 'w list \<Rightarrow> 'w \<Rightarrow> build_state \<times> actor_ptr \<Rightarrow>
   (build_state \<times> actor_ptr) result" where
  "visit_successor m RoadAccuracy' TriggersHeight' EndLaneWaypoint Successors Successor st =
     (if \<not> list_ex (\<lambda>i. fst i = fst (Identifier m Successor) \<and>
                         snd i = snd (Identifier m Successor))
               (AlreadyVisited (fst st))
      then bind_result (sample_waypoints m RoadAccuracy' Successor)
             (add_positions m TriggersHeight' EndLaneWaypoint Successors
                (Identifier m Successor) st)
      else Some (Inr st))"

fun successors_loop ::
  "'w road_map \<Rightarrow> real \<Rightarrow> real \<Rightarrow> 'w \<Rightarrow> 'w list \<Rightarrow> 'w list \<Rightarrow> build_state \<times> actor_ptr \<Rightarrow>
   (build_state \<times> actor_ptr) result" where
  "successors_loop m ra th EndLaneWaypoint Successors [] st = Some (Inr st)"
| "successors_loop m ra th EndLaneWaypoint Successors (Successor # rest) st =
     bind_result (visit_successor m ra th EndLaneWaypoint Successors Successor st)
       (successors_loop m ra th EndLaneWaypoint Successors rest)"

text \<open>One turn of \<^verbatim>\<open>for (auto &&EndLaneWaypoint : MapLaneBeginWaypoint)\<close>.\<close>

definition visit_anchor ::
  "'w road_map \<Rightarrow> real \<Rightarrow> real \<Rightarrow> 'w \<Rightarrow> build_state \<Rightarrow> build_state result" where
  "visit_anchor m ra th EndLaneWaypoint bs =
     bind_result
       (successors_loop m ra th EndLaneWaypoint (GetSuccessors m EndLaneWaypoint)
          (GetSuccessors m EndLaneWaypoint) (bs, None))
       (\<lambda>st. Some (Inr (fst st)))"

fun anchors_loop ::
  "'w road_map \<Rightarrow> real \<Rightarrow> real \<Rightarrow> 'w list \<Rightarrow> build_state \<Rightarrow> build_state result" where
  "anchors_loop m ra th [] bs = Some (Inr bs)"
| "anchors_loop m ra th (EndLaneWaypoint # rest) bs =
     bind_result (visit_anchor m ra th EndLaneWaypoint bs) (anchors_loop m ra th rest)"

text \<open>
  The pass over the map, from an empty \<^verbatim>\<open>AlreadyVisited\<close>: \<^verbatim>\<open>BuildRoutes\<close> after the
  map has been loaded.
\<close>

definition initial_build_state :: "AOpenDriveActor \<times> world \<Rightarrow> build_state" where
  "initial_build_state s =
     \<lparr>World = snd s, Planners = RoutePlanners (fst s), AlreadyVisited = []\<rparr>"

definition build_pass :: "'w road_map \<Rightarrow> AOpenDriveActor \<times> world \<Rightarrow> build_state result" where
  "build_pass m s =
     anchors_loop m (RoadAccuracy (fst s)) (TriggersHeight (fst s)) (GenerateLaneEnd m)
       (initial_build_state s)"

definition BuildRoutes ::
  "'w load_result \<Rightarrow> AOpenDriveActor \<times> world \<Rightarrow> (AOpenDriveActor \<times> world) result" where
  "BuildRoutes ld s =
     (if length (ParseError ld) \<noteq> 0 then Some (Inr s)
      else bind_result (build_pass (map_ptr ld) s)
             (\<lambda>bs. Some (Inr ((fst s)\<lparr>RoutePlanners := Planners bs\<rparr>, World bs))))"

subsection \<open>Removing routes, spawners and debug lines\<close>

text \<open>The loop \<^verbatim>\<open>if (A[i] != nullptr) A[i]->Destroy();\<close> over an array of pointers.\<close>

fun destroy_all :: "actor_ptr list \<Rightarrow> world \<Rightarrow> world" where
  "destroy_all [] w = w"
| "destroy_all (None # ps) w = destroy_all ps w"
| "destroy_all (Some a # ps) w = destroy_all ps (Destroy a w)"

definition RemoveRoutes :: "AOpenDriveActor \<times> world \<Rightarrow> AOpenDriveActor \<times> world" where
  "RemoveRoutes s =
     ((fst s)\<lparr>RoutePlanners := []\<rparr>, destroy_all (RoutePlanners (fst s)) (snd s))"

definition RemoveSpawners :: "AOpenDriveActor \<times> world \<Rightarrow> AOpenDriveActor \<times> world" where
  "RemoveSpawners s =
     ((fst s)\<lparr>VehicleSpawners := []\<rparr>, destroy_all (VehicleSpawners (fst s)) (snd s))"

text \<open>
  \<^verbatim>\<open>DrawRoutes\<close> of a planner belongs to the engine side; here it leaves the routes
  of the planner among the persistent debug lines of the world.
\<close>

fun draw_all :: "actor_ptr list \<Rightarrow> world \<Rightarrow> error + world" where
  "draw_all [] w = Inr w"
| "draw_all (None # ps) w = draw_all ps w"
| "draw_all (Some a # ps) w =
     (case get_planner w (Some a) of
        None \<Rightarrow> Inl Invalid_pointer_dereference
      | Some r \<Rightarrow> draw_all ps (w\<lparr>debug_lines := debug_lines w @ Routes r\<rparr>))"

definition DebugRoutes :: "AOpenDriveActor \<times> world \<Rightarrow> error + AOpenDriveActor \<times> world" where
  "DebugRoutes s =
     (case draw_all (RoutePlanners (fst s)) (snd s) of
        Inl e \<Rightarrow> Inl e
      | Inr w \<Rightarrow> Inr (fst s, w))"

definition RemoveDebugRoutes :: "AOpenDriveActor \<times> world \<Rightarrow> AOpenDriveActor \<times> world" where
  "RemoveDebugRoutes s = (fst s, (snd s)\<lparr>debug_lines := []\<rparr>)"

text \<open>The loop of \<^verbatim>\<open>AddSpawners\<close> over the planners.\<close>

fun add_spawners_loop ::
  "actor_ptr list \<Rightarrow> AOpenDriveActor \<times> world \<Rightarrow> error + AOpenDriveActor \<times> world" where
  "add_spawners_loop [] s = Inr s"
| "add_spawners_loop (None # ps) s = add_spawners_loop ps s"
| "add_spawners_loop (Some a # ps) s =
     (case get_planner (snd s) (Some a) of
        None \<Rightarrow> Inl Invalid_pointer_dereference
      | Some r \<Rightarrow>
          (if \<not> bOnIntersections (fst s) \<and> bIsIntersection r then add_spawners_loop ps s
           else
             (case SpawnActor
                     (VehicleSpawnPointActor
                        (new_spawn_point
                           \<lparr>SpawnerRotation := ActorRotation r,
                            SpawnerLocation :=
                              FVector_add (ActorLocation r)
                                \<lparr>X = 0, Y = 0, Z = SpawnersHeight (fst s)\<rparr>\<rparr>))
                     (snd s) of
                (p, w) \<Rightarrow>
                  add_spawners_loop ps
                    ((fst s)\<lparr>VehicleSpawners := VehicleSpawners (fst s) @ [Some p]\<rparr>, w))))"

definition AddSpawners :: "AOpenDriveActor \<times> world \<Rightarrow> error + AOpenDriveActor \<times> world" where
  "AddSpawners s = add_spawners_loop (RoutePlanners (fst s)) s"

subsection \<open>The editor hook\<close>

text \<open>
  \<^verbatim>\<open>PostEditChangeProperty\<close>: the name of the changed property is a string,
  \<^verbatim>\<open>NAME_None\<close> when the event carries no property.
\<close>

definition NAME_None :: string where
  "NAME_None = ''None''"

definition lift_error :: "error + 'a \<Rightarrow> 'a result" where
  "lift_error r = Some r"

definition on_generate_routes ::
  "'w load_result \<Rightarrow> string \<Rightarrow> AOpenDriveActor \<times> world \<Rightarrow>
   (AOpenDriveActor \<times> world) result" where
  "on_generate_routes ld PropertyName s =
     (if PropertyName = ''bGenerateRoutes'' \<and> bGenerateRoutes (fst s) then
        bind_result
          (BuildRoutes ld
             (RemoveSpawners (RemoveRoutes ((fst s)\<lparr>bGenerateRoutes := False\<rparr>, snd s))))
          (\<lambda>s1. bind_result
                   (if bAddSpawners (fst s1) then lift_error (AddSpawners s1)
                    else Some (Inr s1))
                   (\<lambda>s2. if bShowDebug (fst s2) then lift_error (DebugRoutes s2)
                         else Some (Inr s2)))
      else Some (Inr s))"

definition on_remove_routes ::
  "string \<Rightarrow> AOpenDriveActor \<times> world \<Rightarrow> AOpenDriveActor \<times> world" where
  "on_remove_routes PropertyName s =
     (if PropertyName = ''bRemoveRoutes'' \<and> bRemoveRoutes (fst s) then
        RemoveRoutes
          (RemoveSpawners (RemoveDebugRoutes ((fst s)\<lparr>bRemoveRoutes := False\<rparr>, snd s)))
      else s)"

definition on_show_debug ::
  "string \<Rightarrow> AOpenDriveActor \<times> world \<Rightarrow> (AOpenDriveActor \<times> world) result" where
  "on_show_debug PropertyName s =
     (if PropertyName = ''bShowDebug'' then
        (if bShowDebug (fst s) then lift_error (DebugRoutes s)
         else Some (Inr (RemoveDebugRoutes s)))
      else Some (Inr s))"

definition on_remove_current_spawners ::
  "string \<Rightarrow> AOpenDriveActor \<times> world \<Rightarrow> AOpenDriveActor \<times> world" where
  "on_remove_current_spawners PropertyName s =
     (if PropertyName = ''bRemoveCurrentSpawners'' \<and> bRemoveCurrentSpawners (fst s) then
        RemoveSpawners ((fst s)\<lparr>bRemoveCurrentSpawners := False\<rparr>, snd s)
      else s)"

text \<open>The four \<^verbatim>\<open>if\<close> blocks run one after the other on the same property name.\<close>

definition PostEditChangeProperty ::
  "'w load_result \<Rightarrow> string option \<Rightarrow> AOpenDriveActor \<times> world \<Rightarrow>
   (AOpenDriveActor \<times> world) result" where
  "PostEditChangeProperty ld EventProperty s =
     bind_result
       (on_generate_routes ld (case EventProperty of Some n \<Rightarrow> n | None \<Rightarrow> NAME_None) s)
       (\<lambda>s1. bind_result
                (on_show_debug (case EventProperty of Some n \<Rightarrow> n | None \<Rightarrow> NAME_None)
                   (on_remove_routes
                      (case EventProperty of Some n \<Rightarrow> n | None \<Rightarrow> NAME_None) s1))
                (\<lambda>s2. Some
                        (Inr (on_remove_current_spawners
                                (case EventProperty of Some n \<Rightarrow> n | None \<Rightarrow> NAME_None)
                                s2))))"

subsection \<open>Notions used to state the properties\<close>

text \<open>
  The successors of one anchor that get sampled, in order: those whose identifier is
  neither in the visited list at that moment nor the identifier of an earlier sampled
  successor of the same anchor.
\<close>

fun contributing :: "'w road_map \<Rightarrow> (id_type \<times> int) list \<Rightarrow> 'w list \<Rightarrow> 'w list" where
  "contributing m visited [] = []"
| "contributing m visited (Successor # rest) =
     (if Identifier m Successor \<in> set visited then contributing m visited rest
      else Successor # contributing m (visited @ [Identifier m Successor]) rest)"

text \<open>The waypoints and the polyline of a lane whose sampling succeeds.\<close>

definition sampled :: "'w road_map \<Rightarrow> real \<Rightarrow> 'w \<Rightarrow> 'w list" where
  "sampled m ra Successor =
     (case sample_waypoints m ra Successor of Some (Inr wps) \<Rightarrow> wps | _ \<Rightarrow> [])"

definition polyline :: "'w road_map \<Rightarrow> real \<Rightarrow> real \<Rightarrow> 'w \<Rightarrow> FVector list" where
  "polyline m ra th Successor = WaypointVector2FVectorArray m (sampled m ra Successor) th"

text \<open>
  The planner \<^verbatim>\<open>BuildRoutes\<close> sets up for an anchor with the given successors, holding
  the given routes, and the route groups an outcome of the build leaves in the array.
\<close>

definition planner_of ::
  "'w road_map \<Rightarrow> real \<Rightarrow> 'w \<Rightarrow> 'w list \<Rightarrow> FVector list list \<Rightarrow> ARoutePlanner" where
  "planner_of m th EndLaneWaypoint Successors routes =
     \<lparr>bIsIntersection = list_ex (IsIntersection m) Successors,
      BoxExtent = \<lparr>X = 70, Y = 70, Z = 50\<rparr>,
      ActorRotation = rotation (ComputeTransform m EndLaneWaypoint),
      ActorLocation =
        FVector_add (location (ComputeTransform m EndLaneWaypoint)) \<lparr>X = 0, Y = 0, Z = th\<rparr>,
      Routes = routes,
      Probabilities = replicate (length routes) 1\<rparr>"

text \<open>A planner after more routes of weight 1 have been added to it.\<close>

definition add_routes :: "FVector list list \<Rightarrow> ARoutePlanner \<Rightarrow> ARoutePlanner" where
  "add_routes routes r =
     r\<lparr>Routes := Routes r @ routes,
       Probabilities := Probabilities r @ replicate (length routes) 1\<rparr>"

text \<open>The sampling of every lane of a list succeeds.\<close>

definition samples_ok :: "'w road_map \<Rightarrow> real \<Rightarrow> 'w list \<Rightarrow> bool" where
  "samples_ok m ra cs =
     list_all (\<lambda>S. sample_waypoints m ra S = Some (Inr (sampled m ra S))) cs"

text \<open>
  The state after one anchor has been processed, when every sampling succeeds: nothing
  changes when no successor is sampled; otherwise one planner is spawned, it receives one
  route per sampled successor, and its pointer is added to the array once per sampled
  successor.
\<close>

definition anchor_result ::
  "'w road_map \<Rightarrow> real \<Rightarrow> real \<Rightarrow> 'w \<Rightarrow> build_state \<Rightarrow> build_state" where
  "anchor_result m ra th EndLaneWaypoint bs =
     (if contributing m (AlreadyVisited bs) (GetSuccessors m EndLaneWaypoint) = [] then bs
      else
        \<lparr>World =
           (put_actor (next_actor (World bs))
              (RoutePlannerActor
                 (planner_of m th EndLaneWaypoint (GetSuccessors m EndLaneWaypoint)
                    (map (polyline m ra th)
                       (contributing m (AlreadyVisited bs) (GetSuccessors m EndLaneWaypoint)))))
              (World bs))
           \<lparr>next_actor := Suc (next_actor (World bs))\<rparr>,
         Planners =
           Planners bs @
           replicate
             (length (contributing m (AlreadyVisited bs) (GetSuccessors m EndLaneWaypoint)))
             (Some (next_actor (World bs))),
         AlreadyVisited =
           AlreadyVisited bs @
           map (Identifier m)
             (contributing m (AlreadyVisited bs) (GetSuccessors m EndLaneWaypoint))\<rparr>)"

text \<open>Every sampling of a pass over the given anchors succeeds.\<close>

fun anchors_ok :: "'w road_map \<Rightarrow> real \<Rightarrow> real \<Rightarrow> 'w list \<Rightarrow> build_state \<Rightarrow> bool" where
  "anchors_ok m ra th [] bs = True"
| "anchors_ok m ra th (e # rest) bs =
     (samples_ok m ra (contributing m (AlreadyVisited bs) (GetSuccessors m e)) \<and>
      anchors_ok m ra th rest (anchor_result m ra th e bs))"

text \<open>
  A pointer of the array names a route group built for one of the anchors: the planner
  was spawned at or after address \<open>n0\<close>, and it holds the routes of the sampled
  successors \<open>cs\<close> of that anchor.
\<close>

definition is_group ::
  "'w road_map \<Rightarrow> real \<Rightarrow> real \<Rightarrow> 'w list \<Rightarrow> nat \<Rightarrow> world \<Rightarrow> actor_ptr \<Rightarrow> 'w \<Rightarrow> 'w list \<Rightarrow> bool" where
  "is_group m ra th es n0 w p e cs =
     (e \<in> set es \<and> cs \<noteq> [] \<and> set cs \<subseteq> set (GetSuccessors m e) \<and> samples_ok m ra cs \<and>
      (case p of
         None \<Rightarrow> False
       | Some a \<Rightarrow>
           n0 \<le> a \<and> a < next_actor w \<and>
           actors w a =
             Some (RoutePlannerActor
                     (planner_of m th e (GetSuccessors m e) (map (polyline m ra th) cs)))))"

text \<open>
  The lanes a pass over the given anchors samples, in order, when it starts with the
  given visited list: the sampled successors of the first anchor, then those of the
  next anchor with the visited list grown by them, and so on.
\<close>

fun pass_lanes :: "'w road_map \<Rightarrow> 'w list \<Rightarrow> (id_type \<times> int) list \<Rightarrow> 'w list" where
  "pass_lanes m [] visited = []"
| "pass_lanes m (e # rest) visited =
     contributing m visited (GetSuccessors m e) @
     pass_lanes m rest
       (visited @ map (Identifier m) (contributing m visited (GetSuccessors m e)))"

text \<open>The number of routes held by the route planners at the addresses from \<open>n0\<close> on.\<close>

definition routes_of_actor :: "actor option \<Rightarrow> nat" where
  "routes_of_actor x =
     (case x of Some (RoutePlannerActor r) \<Rightarrow> length (Routes r) | _ \<Rightarrow> 0)"

definition routes_spawned :: "world \<Rightarrow> nat \<Rightarrow> nat" where
  "routes_spawned w n0 = (\<Sum>a = n0..<next_actor w. routes_of_actor (actors w a))"

text \<open>The errors a build can end with.\<close>

definition build_errors :: "error set" where
  "build_errors =
     {Check_NewWaypoint_size_eq_1, Vector_index_out_of_range, Invalid_pointer_dereference}"

definition route_groups :: "(AOpenDriveActor \<times> world) result \<Rightarrow> ARoutePlanner option list" where
  "route_groups res =
     (case res of
        Some (Inr s) \<Rightarrow> map (get_planner (snd s)) (RoutePlanners (fst s))
      | _ \<Rightarrow> [])"

subsection \<open>Example maps\<close>

text \<open>
  Waypoints of the examples: road, lane and distance along the lane. \<open>GetNext\<close> moves
  a waypoint forward on its lane; the transform puts it on the x axis.
\<close>

datatype example_waypoint = WP (wp_road: nat) (wp_lane: int) (wp_s: real)

definition example_map ::
  "(nat \<Rightarrow> real option) \<Rightarrow> example_waypoint list \<Rightarrow>
   (example_waypoint \<Rightarrow> example_waypoint list) \<Rightarrow> (nat \<Rightarrow> bool) \<Rightarrow>
   example_waypoint road_map" where
  "example_map len anchors succs junction =
     \<lparr>GetRoad = (\<lambda>i. case len i of None \<Rightarrow> None | Some l \<Rightarrow> Some \<lparr>Length = l\<rparr>),
      GenerateLaneEnd = anchors,
      GetSuccessors = succs,
      GetNext = (\<lambda>wp d. [WP (wp_road wp) (wp_lane wp) (wp_s wp + d)]),
      GetRoadId = wp_road,
      GetLaneId = wp_lane,
      IsIntersection = (\<lambda>wp. junction (wp_road wp)),
      ComputeTransform =
        (\<lambda>wp. \<lparr>location = \<lparr>X = wp_s wp, Y = 0, Z = 0\<rparr>, rotation = zero_rotator\<rparr>)\<rparr>"

definition empty_world :: world where
  "empty_world = \<lparr>actors = Map.empty, next_actor = 0, debug_lines = []\<rparr>"

definition example_actor :: "real \<Rightarrow> AOpenDriveActor" where
  "example_actor ra =
     \<lparr>RoutePlanners = [], VehicleSpawners = [], RoadAccuracy = ra, TriggersHeight = 100,
      SpawnersHeight = 300, bGenerateRoutes = False, bRemoveRoutes = False,
      bShowDebug = False, bRemoveCurrentSpawners = False, bAddSpawners = False,
      bOnIntersections = False\<rparr>"

text \<open>Scenario B: lane A (road 11, length 30) with the sole successor lane B (road 12, length 20).\<close>

definition map_B :: "example_waypoint road_map" where
  "map_B =
     example_map (\<lambda>i. if i = 11 then Some 30 else if i = 12 then Some 20 else None)
       [WP 11 (- 1) 30, WP 12 (- 1) 20]
       (\<lambda>wp. if wp_road wp = 11 then [WP 12 (- 1) 0] else [])
       (\<lambda>i. False)"

text \<open>A fork: the end of road 11 has two successor lanes, on roads 12 and 13.\<close>

definition map_fork :: "example_waypoint road_map" where
  "map_fork =
     example_map (\<lambda>i. if i = 11 then Some 30 else if i = 12 \<or> i = 13 then Some 20 else None)
       [WP 11 (- 1) 30, WP 12 (- 1) 20, WP 13 (- 1) 20]
       (\<lambda>wp. if wp_road wp = 11 then [WP 12 (- 1) 0, WP 13 (- 1) 0] else [])
       (\<lambda>i. False)"

text \<open>
  A shared junction lane: roads 11 and 12 both continue into the junction lane on road 13,
  and road 12 also continues into road 14, outside the junction.
\<close>

definition map_shared :: "example_waypoint road_map" where
  "map_shared =
     example_map
       (\<lambda>i. if i = 11 \<or> i = 12 then Some 30 else if i = 13 then Some 5
            else if i = 14 then Some 20 else None)
       [WP 11 (- 1) 30, WP 12 (- 1) 30]
       (\<lambda>wp. if wp_road wp = 11 then [WP 13 (- 1) 0]
             else if wp_road wp = 12 then [WP 13 (- 1) 0, WP 14 (- 1) 0] else [])
       (\<lambda>i. i = 13)"


text \<open>A long lane: road 11 continues into road 12 of length 16777218.\<close>

definition map_long :: "example_waypoint road_map" where
  "map_long =
     example_map (\<lambda>i. if i = 11 then Some 30 else if i = 12 then Some 16777218 else None)
       [WP 11 (- 1) 30]
       (\<lambda>wp. if wp_road wp = 11 then [WP 12 (- 1) 0] else [])
       (\<lambda>i. False)"

definition load_long :: "example_waypoint load_result" where
  "load_long = \<lparr>ParseError = [], map_ptr = map_long\<rparr>"

text \<open>A map whose \<open>GetNext\<close> answers with two waypoints at every distance.\<close>

definition map_branching :: "example_waypoint road_map" where
  "map_branching =
     (example_map (\<lambda>i. if i = 11 then Some 30 else if i = 12 then Some 20 else None)
        [WP 11 (- 1) 30]
        (\<lambda>wp. if wp_road wp = 11 then [WP 12 (- 1) 0] else [])
        (\<lambda>i. False))
     \<lparr>GetNext := (\<lambda>wp d. [WP (wp_road wp) (wp_lane wp) (wp_s wp + d),
                            WP (wp_road wp) (wp_lane wp + 1) (wp_s wp + d)])\<rparr>"

text \<open>A world that already holds one route planner, and an actor that owns it.\<close>

definition old_world :: world where
  "old_world =
     \<lparr>actors = [0 \<mapsto> RoutePlannerActor new_route_planner], next_actor = 1, debug_lines = []\<rparr>"

definition old_actor :: AOpenDriveActor where
  "old_actor = (example_actor 10)\<lparr>RoutePlanners := [Some 0], bGenerateRoutes := True\<rparr>"

definition failed_load :: "example_waypoint load_result" where
  "failed_load = \<lparr>ParseError = ''no element found'', map_ptr = map_B\<rparr>"

text \<open>The examples start from an empty world, with a sampling step of 10.\<close>

definition start_state :: "AOpenDriveActor \<times> world" where
  "start_state = (example_actor 10, empty_world)"

definition load_B :: "example_waypoint load_result" where
  "load_B = \<lparr>ParseError = [], map_ptr = map_B\<rparr>"

definition load_fork :: "example_waypoint load_result" where
  "load_fork = \<lparr>ParseError = [], map_ptr = map_fork\<rparr>"

definition load_shared :: "example_waypoint load_result" where
  "load_shared = \<lparr>ParseError = [], map_ptr = map_shared\<rparr>"

text \<open>The two route groups of the shared junction lane example, and the state they end in.\<close>

definition shared_group_0 :: ARoutePlanner where
  "shared_group_0 =
     planner_of map_shared 100 (WP 11 (- 1) 30) [WP 13 (- 1) 0]
       [polyline map_shared 10 100 (WP 13 (- 1) 0)]"

definition shared_group_1 :: ARoutePlanner where
  "shared_group_1 =
     planner_of map_shared 100 (WP 12 (- 1) 30) [WP 13 (- 1) 0, WP 14 (- 1) 0]
       [polyline map_shared 10 100 (WP 14 (- 1) 0)]"

definition shared_state :: "AOpenDriveActor \<times> world" where
  "shared_state =
     ((example_actor 10)\<lparr>RoutePlanners := [Some 0, Some 1]\<rparr>,
      (put_actor 1 (RoutePlannerActor shared_group_1)
         (put_actor 0 (RoutePlannerActor shared_group_0) empty_world))
      \<lparr>next_actor := 2\<rparr>)"

text \<open>The route group of the fork example, and the state it ends in.\<close>

definition fork_group :: ARoutePlanner where
  "fork_group =
     planner_of map_fork 100 (WP 11 (- 1) 30) [WP 12 (- 1) 0, WP 13 (- 1) 0]
       [polyline map_fork 10 100 (WP 12 (- 1) 0), polyline map_fork 10 100 (WP 13 (- 1) 0)]"

definition fork_state :: "AOpenDriveActor \<times> world" where
  "fork_state =
     ((example_actor 10)\<lparr>RoutePlanners := [Some 0, Some 0]\<rparr>,
      (put_actor 0 (RoutePlannerActor fork_group) empty_world)\<lparr>next_actor := 1\<rparr>)"

text \<open>
  States of the shared junction lane example: one where the junction lane has been
  visited, the state after the first successor of the first anchor, and the end of the
  pass.
\<close>

definition visited_13 :: build_state where
  "visited_13 = \<lparr>World = empty_world, Planners = [], AlreadyVisited = [(13, - 1)]\<rparr>"

definition shared_first :: "build_state \<times> actor_ptr" where
  "shared_first =
     (\<lparr>World = (put_actor 0 (RoutePlannerActor shared_group_0) empty_world)
                \<lparr>next_actor := 1\<rparr>,
       Planners = [Some 0], AlreadyVisited = [(13, - 1)]\<rparr>,
      Some 0)"

definition shared_pass :: build_state where
  "shared_pass =
     \<lparr>World = snd shared_state, Planners = [Some 0, Some 1],
      AlreadyVisited = [(13, - 1), (14, - 1)]\<rparr>"

section \<open>Properties\<close>

subsection \<open>Binary32 addition\<close>

lemma round_to_even_int [simp]: "round_to_even (of_int n) = n"
  by (simp add: round_to_even_def)

lemma float32_exponent_eq:
  assumes "2 powi e \<le> \<bar>x\<bar>" and "\<bar>x\<bar> < 2 powi (e + 1)" and "- 126 \<le> e"
  shows "float32_exponent x = e"
proof -
  have pos: "0 < \<bar>x\<bar>"
  proof -
    have "(0::real) < 2 powi e" by simp
    with assms(1) show ?thesis by linarith
  qed
  have a: "2 powr (of_int e) = (2::real) powi e" by (simp add: powr_real_of_int')
  have "2 powr (of_int (e + 1)) = (2::real) powi (e + 1)"
    using powr_real_of_int' [of 2 "e + 1"] by simp
  then have b: "2 powr (of_int e + 1) = (2::real) powi (e + 1)" by simp
  have "\<lfloor>log 2 \<bar>x\<bar>\<rfloor> = e"
    using assms(1,2) pos by (simp add: floor_log_eq_powr_iff a b)
  with assms(3) show ?thesis by (simp add: float32_exponent_def)
qed

lemma float32_small: "\<bar>x\<bar> \<le> 2 ^ 25 \<Longrightarrow> \<not> 2 ^ 128 - 2 ^ 103 \<le> \<bar>x :: real\<bar>"
  by simp

lemma float_add_10_10: "float_add 10 10 = 20"
proof -
  have e: "float32_exponent 20 = 4"
    by (rule float32_exponent_eq) (simp_all add: power_int_def)
  have ulp: "float32_ulp 20 = 1 / 524288"
    by (simp add: float32_ulp_def e power_int_def power_divide)
  have "round_to_even (20 / (1 / 524288)) = 10485760"
    using round_to_even_int [of 10485760] by simp
  then have "round_float32 20 = 20"
    using float32_small [of 20] by (simp add: round_float32_def ulp)
  then show ?thesis by (simp add: float_add_def)
qed

lemma float_add_absorbs: "float_add 16777216 1 = 16777216"
proof -
  have e: "float32_exponent 16777217 = 24"
    by (rule float32_exponent_eq) (simp_all add: power_int_def)
  have ulp: "float32_ulp 16777217 = 2"
    by (simp add: float32_ulp_def e power_int_def)
  have "round_to_even (16777217 / 2) = 8388608"
    by (simp add: round_to_even_def)
  then have "round_float32 16777217 = 16777216"
    using float32_small [of 16777217] by (simp add: round_float32_def ulp)
  then show ?thesis by (simp add: float_add_def)
qed


lemma float32_exponent_int:
  assumes "1 \<le> k" and "k < 2 ^ 24"
  shows "0 \<le> float32_exponent (of_int k)" and "float32_exponent (of_int k) \<le> 23"
proof -
  let ?e = "\<lfloor>log 2 \<bar>real_of_int k\<bar>\<rfloor>"
  have x: "\<bar>real_of_int k\<bar> = of_int k" and pos: "0 < real_of_int k" using assms(1) by simp_all
  have "0 \<le> log 2 (real_of_int k)" using assms(1) by simp
  then have lo: "0 \<le> ?e" by (simp add: x)
  have "real_of_int k < 2 ^ 24" using assms(2) by (metis of_int_less_numeral_power_cancel_iff)
  then have "log 2 (real_of_int k) < 24"
    using pos by (simp add: log_less_iff)
  then have hi: "?e \<le> 23" by (simp add: x floor_le_iff)
  from lo show "0 \<le> float32_exponent (of_int k)" by (simp add: float32_exponent_def)
  from lo hi show "float32_exponent (of_int k) \<le> 23" by (simp add: float32_exponent_def)
qed

lemma round_float32_int:
  assumes "1 \<le> k" and "k < 2 ^ 24"
  shows "round_float32 (of_int k) = of_int k"
proof -
  let ?e = "float32_exponent (of_int k)"
  from float32_exponent_int [OF assms] have e: "0 \<le> ?e" "?e \<le> 23" .
  then have ulp: "float32_ulp (of_int k) = 1 / 2 ^ nat (23 - ?e)"
    by (simp add: float32_ulp_def power_int_def field_simps)
  have q: "real_of_int k / float32_ulp (of_int k) = of_int (k * 2 ^ nat (23 - ?e))"
    by (simp add: ulp)
  have "\<bar>real_of_int k\<bar> \<le> 2 ^ 25"
  proof -
    have "real_of_int k < 2 ^ 24" using assms(2) by (metis of_int_less_numeral_power_cancel_iff)
    with assms(1) show ?thesis by simp
  qed
  from float32_small [OF this] assms(1) show ?thesis
    unfolding round_float32_def q round_to_even_int
    by (simp add: ulp)
qed

lemma round_float32_2_24: "round_float32 16777216 = 16777216"
proof -
  have e: "float32_exponent 16777216 = 24"
    by (rule float32_exponent_eq) (simp_all add: power_int_def)
  have ulp: "float32_ulp 16777216 = 2"
    by (simp add: float32_ulp_def e power_int_def)
  have "round_to_even (16777216 / 2) = 8388608"
    using round_to_even_int [of 8388608] by simp
  then show ?thesis
    using float32_small [of 16777216] by (simp add: round_float32_def ulp)
qed

lemma float_add_int_1:
  assumes "1 \<le> k" and "k \<le> 2 ^ 24"
  shows "\<exists>k'. float_add (of_int k) 1 = of_int k' \<and> 1 \<le> k' \<and> k' \<le> 2 ^ 24"
proof (cases "k + 1 < 2 ^ 24")
  case True
  with assms have "round_float32 (of_int (k + 1)) = of_int (k + 1)"
    by (intro round_float32_int) simp_all
  then have "float_add (of_int k) 1 = of_int (k + 1)" by (simp add: float_add_def)
  with True assms show ?thesis by (intro exI [of _ "k + 1"]) simp
next
  case False
  with assms have "k = 2 ^ 24 - 1 \<or> k = 2 ^ 24" by auto
  then show ?thesis
  proof
    assume "k = 2 ^ 24 - 1"
    then have "float_add (of_int k) 1 = of_int (2 ^ 24)"
      using round_float32_2_24 by (simp add: float_add_def)
    then show ?thesis by (intro exI [of _ "2 ^ 24"]) simp
  next
    assume "k = 2 ^ 24"
    then have "float_add (of_int k) 1 = of_int (2 ^ 24)"
      using float_add_absorbs by simp
    then show ?thesis by (intro exI [of _ "2 ^ 24"]) simp
  qed
qed


subsection \<open>Results and the stepping loop\<close>

lemma bind_result_simps [simp]:
  "bind_result None f = None"
  "bind_result (Some (Inl e)) f = Some (Inl e)"
  "bind_result (Some (Inr x)) f = f x"
  by (simp_all add: bind_result_def)

lemma bind_result_eq_Inr:
  "bind_result r f = Some (Inr y) \<longleftrightarrow> (\<exists>x. r = Some (Inr x) \<and> f x = Some (Inr y))"
  by (auto simp: bind_result_def split: option.splits sum.splits)

lemma bind_result_eq_Inl:
  "bind_result r f = Some (Inl e) \<longleftrightarrow>
     r = Some (Inl e) \<or> (\<exists>x. r = Some (Inr x) \<and> f x = Some (Inl e))"
  by (auto simp: bind_result_def split: option.splits sum.splits)

lemma sample_loop_done:
  "\<not> Dist < MaxDist \<Longrightarrow> sample_loop m s ra MaxDist Dist wps = Some (Inr wps)"
  by (subst sample_loop.simps) simp

lemma sample_loop_step:
  "Dist < MaxDist \<Longrightarrow> sample_loop m s ra MaxDist Dist wps =
     (if length (GetNext m s Dist) \<noteq> 1 then Some (Inl Check_NewWaypoint_size_eq_1)
      else sample_loop m s ra MaxDist (float_add Dist ra) (wps @ [GetNext m s Dist ! 0]))"
  by (subst sample_loop.simps) simp

lemma sample_loop_result:
  assumes "sample_loop m s ra MaxDist Dist wps = Some y"
  shows "y = Inl Check_NewWaypoint_size_eq_1 \<or> (\<exists>ys. y = Inr (wps @ ys))"
proof (rule sample_loop.raw_induct
    [where P = "\<lambda>m s ra MaxDist Dist wps y.
       y = Inl Check_NewWaypoint_size_eq_1 \<or> (\<exists>ys. y = Inr (wps @ ys))", OF _ assms],
    goal_cases)
  case (1 loop m s ra MaxDist Dist wps y)
  show ?case
  proof (cases "Dist < MaxDist \<and> length (GetNext m s Dist) = 1")
    case True
    with 1(2) have "loop m s ra MaxDist (float_add Dist ra) (wps @ [GetNext m s Dist ! 0]) =
        Some y"
      by simp
    from 1(1)[OF this] show ?thesis by auto
  next
    case False
    with 1(2) show ?thesis by (auto split: if_splits)
  qed
qed

lemma final_sample_result:
  "final_sample m s MaxDist wps =
     (case GetNext m s (final_distance MaxDist) of
        [] \<Rightarrow> Some (Inl Vector_index_out_of_range)
      | wp # _ \<Rightarrow> if wps = [] then Some (Inl Check_Waypoints_size_ge_2)
                 else Some (Inr (wps @ [wp])))"
  by (cases wps) (auto simp: final_sample_def split: list.splits)

lemma sample_waypoints_result:
  assumes "sample_waypoints m ra s = Some y"
  shows "y \<in> {Inl Check_NewWaypoint_size_eq_1, Inl Vector_index_out_of_range,
              Inl Invalid_pointer_dereference} \<or>
         (\<exists>ys wp. y = Inr (s # ys @ [wp]))"
proof (cases "GetRoad m (GetRoadId m s)")
  case None
  with assms show ?thesis by (simp add: sample_waypoints_def)
next
  case (Some r)
  with assms have b: "bind_result (sample_loop m s ra (Length r) ra [s])
      (final_sample m s (Length r)) = Some y"
    by (simp add: sample_waypoints_def)
  show ?thesis
  proof (cases "sample_loop m s ra (Length r) ra [s]")
    case None
    with b show ?thesis by simp
  next
    case (Some z)
    from sample_loop_result[OF Some] b Some show ?thesis
      by (auto simp: final_sample_result split: list.splits)
  qed
qed

text \<open>
  With a step of 1 and a lane of length 16777218 the stepping loop never ends: the
  distance reaches 16777216, where adding 1 changes nothing.
\<close>

lemma sample_loop_stalls:
  assumes single: "\<And>d. length (GetNext m S d) = 1"
    and k: "1 \<le> k" "k \<le> 2 ^ 24"
  shows "sample_loop m S 1 16777218 (of_int k) ws = None"
proof (rule ccontr)
  assume "sample_loop m S 1 16777218 (of_int k) ws \<noteq> None"
  then obtain y where y: "sample_loop m S 1 16777218 (of_int k) ws = Some y" by blast
  have "\<not> (m' = m \<and> S' = S \<and> ra = 1 \<and> MaxDist = 16777218 \<and>
            (\<exists>k. Dist = real_of_int k \<and> 1 \<le> k \<and> k \<le> 2 ^ 24))"
    if "sample_loop m' S' ra MaxDist Dist ws' = Some y'" for m' S' ra MaxDist Dist ws' y'
    using that
  proof (rule sample_loop.raw_induct
      [where P = "\<lambda>m' S' ra MaxDist Dist ws' y'.
         \<not> (m' = m \<and> S' = S \<and> ra = 1 \<and> MaxDist = 16777218 \<and>
            (\<exists>k. Dist = real_of_int k \<and> 1 \<le> k \<and> k \<le> 2 ^ 24))", rotated], goal_cases)
    case (1 loop m' S' ra MaxDist Dist ws' y')
    show ?case
    proof
      assume a: "m' = m \<and> S' = S \<and> ra = 1 \<and> MaxDist = 16777218 \<and>
            (\<exists>k. Dist = real_of_int k \<and> 1 \<le> k \<and> k \<le> 2 ^ 24)"
      then obtain j where j: "Dist = real_of_int j" "1 \<le> j" "j \<le> 2 ^ 24" by blast
      from j(3) have "real_of_int j \<le> 2 ^ 24"
        by (metis of_int_le_numeral_power_cancel_iff)
      then have lt: "Dist < MaxDist" using a j(1) by simp
      from float_add_int_1 [OF j(2,3)] obtain j' where
        j': "float_add (of_int j) 1 = of_int j'" "1 \<le> j'" "j' \<le> 2 ^ 24" by blast
      from 1(2) lt a single
      have "loop m S 1 16777218 (float_add Dist 1) (ws' @ [GetNext m S Dist ! 0]) = Some y'"
        by simp
      from 1(1) [OF this] j' j(1) show False by auto
    qed
  qed
  from this [OF y] k show False by blast
qed



lemma sample_waypoints_length:
  assumes "sample_waypoints m ra S = Some (Inr wps)"
  shows "2 \<le> length wps"
  using sample_waypoints_result [OF assms] by auto

subsection \<open>The world and one successor\<close>

lemma put_actor_fields [simp]:
  "actors (put_actor a x w) = (actors w)(a \<mapsto> x)"
  "next_actor (put_actor a x w) = next_actor w"
  "debug_lines (put_actor a x w) = debug_lines w"
  by (simp_all add: put_actor_def)

lemma put_actor_twice [simp]: "put_actor a y (put_actor a x w) = put_actor a y w"
  by (simp add: put_actor_def)

lemma put_actor_next [simp]:
  "put_actor a y ((put_actor a x w)\<lparr>next_actor := n\<rparr>) = (put_actor a y w)\<lparr>next_actor := n\<rparr>"
  by (simp add: put_actor_def)

lemma put_actor_same: "actors w a = Some x \<Longrightarrow> put_actor a x w = w"
  by (simp add: put_actor_def fun_upd_idem)

lemma put_actor_next_update [simp]:
  "put_actor a x (w\<lparr>next_actor := n\<rparr>) = (put_actor a x w)\<lparr>next_actor := n\<rparr>"
  by (simp add: put_actor_def)

lemma add_routes_Nil [simp]: "add_routes [] r = r"
  by (simp add: add_routes_def)

lemma add_routes_twice [simp]: "add_routes ys (add_routes xs r) = add_routes (xs @ ys) r"
  by (simp add: add_routes_def replicate_add)

lemma add_routes_planner_of [simp]:
  "add_routes xs (planner_of m th e sa routes) = planner_of m th e sa (routes @ xs)"
  by (simp add: add_routes_def planner_of_def replicate_add)

lemma any_of_Identifier:
  "list_ex (\<lambda>i. fst i = fst x \<and> snd i = snd x) xs \<longleftrightarrow> x \<in> set xs"
  by (auto simp: list_ex_iff prod_eq_iff)

lemma visit_successor_skip:
  "Identifier m S \<in> set (AlreadyVisited (fst st)) \<Longrightarrow>
   visit_successor m ra th e sa S st = Some (Inr st)"
  by (simp add: visit_successor_def any_of_Identifier)

lemma visit_successor_sample:
  "Identifier m S \<notin> set (AlreadyVisited (fst st)) \<Longrightarrow>
   visit_successor m ra th e sa S st =
     bind_result (sample_waypoints m ra S) (add_positions m th e sa (Identifier m S) st)"
  by (simp add: visit_successor_def any_of_Identifier)

lemma add_positions_first:
  "add_positions m th e sa ident (bs, None) wps =
     Some (Inr (\<lparr>World = (put_actor (next_actor (World bs))
                            (RoutePlannerActor
                               (planner_of m th e sa [WaypointVector2FVectorArray m wps th]))
                            (World bs))
                         \<lparr>next_actor := Suc (next_actor (World bs))\<rparr>,
                 Planners = Planners bs @ [Some (next_actor (World bs))],
                 AlreadyVisited = AlreadyVisited bs @ [ident]\<rparr>,
                Some (next_actor (World bs))))"
  by (simp add: add_positions_def materialize_def SpawnActor_def update_planner_def
        AddRoute_def planner_of_def new_route_planner_def)

lemma add_positions_next:
  "actors (World bs) a = Some (RoutePlannerActor r) \<Longrightarrow>
   add_positions m th e sa ident (bs, Some a) wps =
     Some (Inr (\<lparr>World = put_actor a
                           (RoutePlannerActor
                              (add_routes [WaypointVector2FVectorArray m wps th] r))
                           (World bs),
                 Planners = Planners bs @ [Some a],
                 AlreadyVisited = AlreadyVisited bs @ [ident]\<rparr>,
                Some a))"
  by (simp add: add_positions_def materialize_def update_planner_def AddRoute_def
        add_routes_def)

lemma sampled_eq: "sample_waypoints m ra S = Some (Inr wps) \<Longrightarrow> sampled m ra S = wps"
  by (simp add: sampled_def)

lemma polyline_eq:
  "sample_waypoints m ra S = Some (Inr wps) \<Longrightarrow>
   polyline m ra th S = WaypointVector2FVectorArray m wps th"
  by (simp add: polyline_def sampled_eq)

lemma samples_ok_Cons:
  "samples_ok m ra (S # cs) \<longleftrightarrow>
     (\<exists>wps. sample_waypoints m ra S = Some (Inr wps)) \<and> samples_ok m ra cs"
  by (auto simp: samples_ok_def sampled_eq)

lemma samples_ok_Nil [simp]: "samples_ok m ra []"
  by (simp add: samples_ok_def)

lemma successors_loop_Some:
  assumes "actors (World bs) a = Some (RoutePlannerActor r)"
  shows "successors_loop m ra th e sa succs (bs, Some a) = Some (Inr st') \<longleftrightarrow>
         samples_ok m ra (contributing m (AlreadyVisited bs) succs) \<and>
         st' = (\<lparr>World = put_actor a
                    (RoutePlannerActor
                       (add_routes
                          (map (polyline m ra th) (contributing m (AlreadyVisited bs) succs)) r))
                    (World bs),
                 Planners = Planners bs @
                   replicate (length (contributing m (AlreadyVisited bs) succs)) (Some a),
                 AlreadyVisited = AlreadyVisited bs @
                   map (Identifier m) (contributing m (AlreadyVisited bs) succs)\<rparr>,
                Some a)"
  using assms
proof (induction succs arbitrary: bs r)
  case Nil
  then show ?case by (auto simp: put_actor_same)
next
  case (Cons S rest)
  show ?case
  proof (cases "Identifier m S \<in> set (AlreadyVisited bs)")
    case True
    with Cons.IH [OF Cons.prems] show ?thesis
      by (simp add: visit_successor_skip)
  next
    case False
    show ?thesis
    proof (cases "\<exists>wps. sample_waypoints m ra S = Some (Inr wps)")
      case no: False
      then have "bind_result (sample_waypoints m ra S) f \<noteq> Some (Inr y)" for f y
        by (auto simp: bind_result_eq_Inr)
      with False no show ?thesis
        by (auto simp: visit_successor_sample samples_ok_Cons bind_result_eq_Inr)
    next
      case True
      then obtain wps where wps: "sample_waypoints m ra S = Some (Inr wps)" by blast
      let ?r1 = "add_routes [WaypointVector2FVectorArray m wps th] r"
      let ?bs1 = "\<lparr>World = put_actor a (RoutePlannerActor ?r1) (World bs),
                   Planners = Planners bs @ [Some a],
                   AlreadyVisited = AlreadyVisited bs @ [Identifier m S]\<rparr>"
      have a1: "actors (World ?bs1) a = Some (RoutePlannerActor ?r1)" by simp
      have "successors_loop m ra th e sa (S # rest) (bs, Some a) =
              successors_loop m ra th e sa rest (?bs1, Some a)"
        using False wps by (simp add: visit_successor_sample add_positions_next [OF Cons.prems])
      with Cons.IH [OF a1] False wps show ?thesis
        by (simp add: samples_ok_Cons polyline_eq)
    qed
  qed
qed

lemma successors_loop_None:
  "successors_loop m ra th e sa succs (bs, None) = Some (Inr st') \<longleftrightarrow>
         samples_ok m ra (contributing m (AlreadyVisited bs) succs) \<and>
         st' = (if contributing m (AlreadyVisited bs) succs = [] then (bs, None)
                else (\<lparr>World = (put_actor (next_actor (World bs))
                      (RoutePlannerActor
                        (planner_of m th e sa
                           (map (polyline m ra th) (contributing m (AlreadyVisited bs) succs))))
                      (World bs))
                    \<lparr>next_actor := Suc (next_actor (World bs))\<rparr>,
                 Planners = Planners bs @
                   replicate (length (contributing m (AlreadyVisited bs) succs))
                     (Some (next_actor (World bs))),
                 AlreadyVisited = AlreadyVisited bs @
                   map (Identifier m) (contributing m (AlreadyVisited bs) succs)\<rparr>,
                Some (next_actor (World bs))))"
proof (induction succs)
  case Nil
  then show ?case by auto
next
  case (Cons S rest)
  show ?case
  proof (cases "Identifier m S \<in> set (AlreadyVisited bs)")
    case True
    with Cons.IH show ?thesis
      by (simp add: visit_successor_skip)
  next
    case False
    show ?thesis
    proof (cases "\<exists>wps. sample_waypoints m ra S = Some (Inr wps)")
      case no: False
      with False show ?thesis
        by (auto simp: visit_successor_sample samples_ok_Cons bind_result_eq_Inr)
    next
      case True
      then obtain wps where wps: "sample_waypoints m ra S = Some (Inr wps)" by blast
      let ?a = "next_actor (World bs)"
      let ?r1 = "planner_of m th e sa [WaypointVector2FVectorArray m wps th]"
      let ?bs1 = "\<lparr>World = (put_actor ?a (RoutePlannerActor ?r1) (World bs))
                            \<lparr>next_actor := Suc ?a\<rparr>,
                   Planners = Planners bs @ [Some ?a],
                   AlreadyVisited = AlreadyVisited bs @ [Identifier m S]\<rparr>"
      have a1: "actors (World ?bs1) ?a = Some (RoutePlannerActor ?r1)" by simp
      have "successors_loop m ra th e sa (S # rest) (bs, None) =
              successors_loop m ra th e sa rest (?bs1, Some ?a)"
        using False wps by (simp add: visit_successor_sample add_positions_first)
      with successors_loop_Some [OF a1] False wps show ?thesis
        by (simp add: samples_ok_Cons polyline_eq)
    qed
  qed
qed

lemma visit_anchor_iff:
  "visit_anchor m ra th e bs = Some (Inr bs') \<longleftrightarrow>
     samples_ok m ra (contributing m (AlreadyVisited bs) (GetSuccessors m e)) \<and>
     bs' = anchor_result m ra th e bs"
  by (auto simp: visit_anchor_def bind_result_eq_Inr successors_loop_None anchor_result_def)

subsection \<open>The pass over the anchors\<close>

lemma contributing_subset: "set (contributing m vis xs) \<subseteq> set xs"
  by (induction xs arbitrary: vis) auto

lemma contributing_distinct:
  "distinct vis \<Longrightarrow> distinct (vis @ map (Identifier m) (contributing m vis xs))"
proof (induction xs arbitrary: vis)
  case Nil
  then show ?case by simp
next
  case (Cons S rest)
  show ?case
  proof (cases "Identifier m S \<in> set vis")
    case True
    with Cons show ?thesis by simp
  next
    case False
    with Cons.prems have "distinct (vis @ [Identifier m S])" by simp
    from Cons.IH [OF this] False show ?thesis by simp
  qed
qed

lemma contributing_set:
  "set vis \<union> Identifier m ` set (contributing m vis xs) = set vis \<union> Identifier m ` set xs"
proof (induction xs arbitrary: vis)
  case Nil
  then show ?case by simp
next
  case (Cons S rest)
  show ?case
  proof (cases "Identifier m S \<in> set vis")
    case True
    with Cons.IH [of vis] show ?thesis by auto
  next
    case False
    with Cons.IH [of "vis @ [Identifier m S]"] show ?thesis by auto
  qed
qed

lemma anchor_result_fields:
  "AlreadyVisited (anchor_result m ra th e bs) =
     AlreadyVisited bs @
     map (Identifier m) (contributing m (AlreadyVisited bs) (GetSuccessors m e))"
  "Planners (anchor_result m ra th e bs) =
     Planners bs @
     replicate (length (contributing m (AlreadyVisited bs) (GetSuccessors m e)))
       (Some (next_actor (World bs)))"
  "debug_lines (World (anchor_result m ra th e bs)) = debug_lines (World bs)"
  "next_actor (World (anchor_result m ra th e bs)) =
     (if contributing m (AlreadyVisited bs) (GetSuccessors m e) = [] then next_actor (World bs)
      else Suc (next_actor (World bs)))"
  "actors (World (anchor_result m ra th e bs)) =
     (if contributing m (AlreadyVisited bs) (GetSuccessors m e) = [] then actors (World bs)
      else (actors (World bs))(next_actor (World bs) \<mapsto>
             RoutePlannerActor
               (planner_of m th e (GetSuccessors m e)
                  (map (polyline m ra th)
                     (contributing m (AlreadyVisited bs) (GetSuccessors m e))))))"
  by (simp_all add: anchor_result_def)

lemma anchors_loop_iff:
  "anchors_loop m ra th es bs = Some (Inr bs') \<longleftrightarrow>
     anchors_ok m ra th es bs \<and> bs' = fold (anchor_result m ra th) es bs"
proof (induction es arbitrary: bs)
  case Nil
  then show ?case by auto
next
  case (Cons e rest)
  then show ?case
    by (auto simp: bind_result_eq_Inr visit_anchor_iff)
qed

lemma fold_anchor_visited:
  "distinct (AlreadyVisited bs) \<Longrightarrow>
     distinct (AlreadyVisited (fold (anchor_result m ra th) es bs))"
  "set (AlreadyVisited (fold (anchor_result m ra th) es bs)) =
     set (AlreadyVisited bs) \<union> Identifier m ` (\<Union>e\<in>set es. set (GetSuccessors m e))"
  "length (Planners (fold (anchor_result m ra th) es bs)) + length (AlreadyVisited bs) =
     length (Planners bs) + length (AlreadyVisited (fold (anchor_result m ra th) es bs))"
proof (induction es arbitrary: bs)
  case Nil
  {
    case 1 then show ?case by simp
  next
    case 2 show ?case by simp
  next
    case 3 show ?case by simp
  }
next
  case (Cons e rest)
  {
    case 1
    then have "distinct (AlreadyVisited (anchor_result m ra th e bs))"
      by (simp add: anchor_result_fields contributing_distinct del: distinct_append)
    from Cons.IH(1) [OF this] show ?case by simp
  next
    case 2
    show ?case
      using contributing_set [of "AlreadyVisited bs" m "GetSuccessors m e"]
      by (simp add: Cons.IH(2) anchor_result_fields Un_assoc image_Un)
  next
    case 3
    show ?case
      using Cons.IH(3) [of "anchor_result m ra th e bs"]
      by (simp add: anchor_result_fields)
  }
qed

lemma fold_anchor_next:
  "next_actor (World bs) \<le> next_actor (World (fold (anchor_result m ra th) es bs))"
proof (induction es arbitrary: bs)
  case Nil
  show ?case by simp
next
  case (Cons e rest)
  have "next_actor (World bs) \<le> next_actor (World (anchor_result m ra th e bs))"
    by (simp add: anchor_result_fields)
  also have "\<dots> \<le> next_actor (World (fold (anchor_result m ra th) rest
                                        (anchor_result m ra th e bs)))"
    by (rule Cons.IH)
  finally show ?case by simp
qed

lemma fold_anchor_actors:
  "a < next_actor (World bs) \<Longrightarrow>
     actors (World (fold (anchor_result m ra th) es bs)) a = actors (World bs) a"
proof (induction es arbitrary: bs)
  case Nil
  show ?case by simp
next
  case (Cons e rest)
  have "next_actor (World bs) \<le> next_actor (World (anchor_result m ra th e bs))"
    by (simp add: anchor_result_fields)
  with Cons.prems have "a < next_actor (World (anchor_result m ra th e bs))" by simp
  from Cons.IH [OF this] Cons.prems show ?case by (simp add: anchor_result_fields)
qed

lemma fold_anchor_debug_lines:
  "debug_lines (World (fold (anchor_result m ra th) es bs)) = debug_lines (World bs)"
  by (induction es arbitrary: bs) (simp_all add: anchor_result_fields)

lemma is_group_mono:
  assumes "is_group m ra th es n0 w p e cs" and "set es \<subseteq> set es'" and "n0' \<le> n0"
  shows "is_group m ra th es' n0' w p e cs"
  using assms by (auto simp: is_group_def split: option.splits)

lemma fold_anchor_groups:
  assumes "anchors_ok m ra th es bs"
  shows "\<exists>qs. Planners (fold (anchor_result m ra th) es bs) = Planners bs @ qs \<and>
           list_all (\<lambda>p. \<exists>e cs. is_group m ra th es (next_actor (World bs))
                        (World (fold (anchor_result m ra th) es bs)) p e cs) qs"
  using assms
proof (induction es arbitrary: bs)
  case Nil
  then show ?case by simp
next
  case (Cons e rest)
  let ?bs1 = "anchor_result m ra th e bs"
  let ?bs' = "fold (anchor_result m ra th) rest ?bs1"
  let ?cs = "contributing m (AlreadyVisited bs) (GetSuccessors m e)"
  let ?n = "next_actor (World bs)"
  from Cons.prems have ok: "samples_ok m ra ?cs" and rest: "anchors_ok m ra th rest ?bs1"
    by simp_all
  from Cons.IH [OF rest] obtain qs where
    qs: "Planners ?bs' = Planners ?bs1 @ qs" and
    groups: "list_all (\<lambda>p. \<exists>e cs. is_group m ra th rest (next_actor (World ?bs1))
                        (World ?bs') p e cs) qs"
    by blast
  have le: "?n \<le> next_actor (World ?bs1)" by (simp add: anchor_result_fields)
  have old: "list_all (\<lambda>p. \<exists>e' cs. is_group m ra th (e # rest) ?n (World ?bs') p e' cs) qs"
    unfolding list_all_iff
  proof
    fix p assume "p \<in> set qs"
    with groups obtain e' cs where
      "is_group m ra th rest (next_actor (World ?bs1)) (World ?bs') p e' cs"
      by (auto simp: list_all_iff)
    from is_group_mono [OF this _ le, of "e # rest"]
    have "is_group m ra th (e # rest) ?n (World ?bs') p e' cs" by auto
    then show "\<exists>e' cs. is_group m ra th (e # rest) ?n (World ?bs') p e' cs" by blast
  qed
  have new: "is_group m ra th (e # rest) ?n (World ?bs') (Some ?n) e ?cs" if "?cs \<noteq> []"
  proof -
    from that have n1: "next_actor (World ?bs1) = Suc ?n" by (simp add: anchor_result_fields)
    then have "?n < next_actor (World ?bs1)" by simp
    from fold_anchor_actors [OF this, of m ra th rest] that
    have "actors (World ?bs') ?n =
            Some (RoutePlannerActor
                    (planner_of m th e (GetSuccessors m e) (map (polyline m ra th) ?cs)))"
      by (simp add: anchor_result_fields)
    moreover have "?n < next_actor (World ?bs')"
      using fold_anchor_next [of ?bs1 m ra th rest] n1 by simp
    ultimately show ?thesis
      using that ok by (simp add: is_group_def contributing_subset)
  qed
  have "Planners (fold (anchor_result m ra th) (e # rest) bs) =
          Planners bs @ (replicate (length ?cs) (Some ?n) @ qs)"
    by (simp add: qs anchor_result_fields)
  moreover have "list_all (\<lambda>p. \<exists>e' cs. is_group m ra th (e # rest) ?n
                    (World (fold (anchor_result m ra th) (e # rest) bs)) p e' cs)
                  (replicate (length ?cs) (Some ?n) @ qs)"
  proof (cases "?cs = []")
    case True
    with old show ?thesis by simp
  next
    case False
    from new [OF False]
    have "\<exists>e' cs. is_group m ra th (e # rest) ?n (World ?bs') (Some ?n) e' cs" by blast
    then have "list_all (\<lambda>p. \<exists>e' cs. is_group m ra th (e # rest) ?n (World ?bs') p e' cs)
                 (replicate (length ?cs) (Some ?n))"
      by (simp add: list_all_iff)
    with old show ?thesis by simp
  qed
  ultimately show ?case by blast
qed

subsection \<open>BuildRoutes as a whole\<close>

lemma BuildRoutes_parse_error:
  "ParseError ld \<noteq> [] \<Longrightarrow> BuildRoutes ld s = Some (Inr s)"
  by (simp add: BuildRoutes_def)

lemma build_pass_iff:
  "build_pass m s = Some (Inr bs) \<longleftrightarrow>
     anchors_ok m (RoadAccuracy (fst s)) (TriggersHeight (fst s)) (GenerateLaneEnd m)
       (initial_build_state s) \<and>
     bs = fold (anchor_result m (RoadAccuracy (fst s)) (TriggersHeight (fst s)))
            (GenerateLaneEnd m) (initial_build_state s)"
  by (simp add: build_pass_def anchors_loop_iff)

lemma BuildRoutes_iff:
  assumes "ParseError ld = []"
  shows "BuildRoutes ld s = Some (Inr s') \<longleftrightarrow>
     (\<exists>bs. build_pass (map_ptr ld) s = Some (Inr bs) \<and>
           s' = ((fst s)\<lparr>RoutePlanners := Planners bs\<rparr>, World bs))"
  using assms by (auto simp: BuildRoutes_def bind_result_eq_Inr)

lemma add_positions_lists:
  assumes "add_positions m th e sa ident st wps = Some (Inr st')"
  shows "AlreadyVisited (fst st') = AlreadyVisited (fst st) @ [ident] \<and>
         Planners (fst st') = Planners (fst st) @ [snd st']"
proof (cases "materialize m th e sa (snd st) (World (fst st))")
  case (Inl err)
  with assms show ?thesis by (simp add: add_positions_def)
next
  case (Inr pw)
  obtain rp w1 where pw: "pw = (rp, w1)" by (cases pw)
  show ?thesis
  proof (cases "AddRoute rp 1 (WaypointVector2FVectorArray m wps th) w1")
    case (Inl err)
    with assms Inr pw show ?thesis by (simp add: add_positions_def)
  next
    case w2: (Inr w2)
    with assms Inr pw show ?thesis by (auto simp: add_positions_def)
  qed
qed

lemma visit_successor_sampled:
  assumes "Identifier m S \<notin> set (AlreadyVisited (fst st))"
    and "visit_successor m ra th e sa S st = Some (Inr st')"
  shows "(\<exists>wps. sample_waypoints m ra S = Some (Inr wps)) \<and>
         AlreadyVisited (fst st') = AlreadyVisited (fst st) @ [Identifier m S] \<and>
         Planners (fst st') = Planners (fst st) @ [snd st']"
proof -
  from assms obtain wps where
    wps: "sample_waypoints m ra S = Some (Inr wps)" and
    add: "add_positions m th e sa (Identifier m S) st wps = Some (Inr st')"
    by (auto simp: visit_successor_sample bind_result_eq_Inr)
  from add_positions_lists [OF add] wps show ?thesis by blast
qed

lemma update_planner_error:
  "update_planner p f w = Inl err \<Longrightarrow> err = Invalid_pointer_dereference"
  by (auto simp: update_planner_def split: option.splits actor.splits)

lemma materialize_error:
  "materialize m th e sa rp w = Inl err \<Longrightarrow> err = Invalid_pointer_dereference"
  by (auto simp: materialize_def SpawnActor_def split: if_splits sum.splits
        dest: update_planner_error)

lemma add_positions_error:
  assumes "add_positions m th e sa ident st wps = Some (Inl err)"
  shows "err = Invalid_pointer_dereference"
proof (cases "materialize m th e sa (snd st) (World (fst st))")
  case (Inl err')
  with assms materialize_error [OF Inl] show ?thesis by (simp add: add_positions_def)
next
  case (Inr pw)
  obtain rp w1 where pw: "pw = (rp, w1)" by (cases pw)
  show ?thesis
  proof (cases "AddRoute rp 1 (WaypointVector2FVectorArray m wps th) w1")
    case (Inl err')
    then have "err' = Invalid_pointer_dereference"
      by (auto simp: AddRoute_def dest: update_planner_error)
    with assms Inr pw Inl show ?thesis by (simp add: add_positions_def)
  next
    case w2: (Inr w2)
    with assms Inr pw show ?thesis by (simp add: add_positions_def)
  qed
qed

lemma sample_waypoints_error:
  "sample_waypoints m ra S = Some (Inl err) \<Longrightarrow> err \<in> build_errors"
  using sample_waypoints_result [of m ra S "Inl err"] by (auto simp: build_errors_def)

lemma visit_successor_error:
  assumes "visit_successor m ra th e sa S st = Some (Inl err)"
  shows "err \<in> build_errors"
proof (cases "Identifier m S \<in> set (AlreadyVisited (fst st))")
  case True
  with assms show ?thesis by (simp add: visit_successor_skip)
next
  case False
  with assms show ?thesis
    by (auto simp: visit_successor_sample bind_result_eq_Inl build_errors_def
          dest: sample_waypoints_error add_positions_error)
qed

lemma successors_loop_error:
  "successors_loop m ra th e sa succs st = Some (Inl err) \<Longrightarrow> err \<in> build_errors"
  by (induction succs arbitrary: st)
     (auto simp: bind_result_eq_Inl dest: visit_successor_error)

lemma visit_anchor_error:
  "visit_anchor m ra th e bs = Some (Inl err) \<Longrightarrow> err \<in> build_errors"
  by (auto simp: visit_anchor_def bind_result_eq_Inl dest: successors_loop_error)

lemma anchors_loop_error:
  "anchors_loop m ra th es bs = Some (Inl err) \<Longrightarrow> err \<in> build_errors"
  by (induction es arbitrary: bs)
     (auto simp: bind_result_eq_Inl dest: visit_anchor_error)

lemma BuildRoutes_error:
  "BuildRoutes ld s = Some (Inl err) \<Longrightarrow> err \<in> build_errors"
  by (auto simp: BuildRoutes_def build_pass_def bind_result_eq_Inl split: if_splits
        dest: anchors_loop_error)

lemma new_entry_is_group:
  assumes "BuildRoutes ld s = Some (Inr s')" and "ParseError ld = []"
    and "length (RoutePlanners (fst s)) \<le> i" and "i < length (RoutePlanners (fst s'))"
  shows "\<exists>e cs. is_group (map_ptr ld) (RoadAccuracy (fst s)) (TriggersHeight (fst s))
           (GenerateLaneEnd (map_ptr ld)) (next_actor (snd s)) (snd s')
           (RoutePlanners (fst s') ! i) e cs"
proof -
  let ?m = "map_ptr ld" and ?ra = "RoadAccuracy (fst s)" and ?th = "TriggersHeight (fst s)"
  let ?init = "initial_build_state s"
  let ?bs = "fold (anchor_result ?m ?ra ?th) (GenerateLaneEnd ?m) ?init"
  from assms(1,2) have ok: "anchors_ok ?m ?ra ?th (GenerateLaneEnd ?m) ?init"
    and s': "s' = ((fst s)\<lparr>RoutePlanners := Planners ?bs\<rparr>, World ?bs)"
    by (auto simp: BuildRoutes_iff build_pass_iff)
  from fold_anchor_groups [OF ok] obtain qs where
    qs: "Planners ?bs = Planners ?init @ qs" and
    groups: "list_all (\<lambda>p. \<exists>e cs. is_group ?m ?ra ?th (GenerateLaneEnd ?m)
                        (next_actor (World ?init)) (World ?bs) p e cs) qs"
    by blast
  have old: "Planners ?init = RoutePlanners (fst s)" and w0: "World ?init = snd s"
    by (simp_all add: initial_build_state_def)
  from assms(3,4) have "RoutePlanners (fst s') ! i = qs ! (i - length (RoutePlanners (fst s)))"
    and "i - length (RoutePlanners (fst s)) < length qs"
    by (simp_all add: s' qs old nth_append)
  with groups show ?thesis
    by (simp add: list_all_length s' w0)
qed

lemma is_group_planner:
  assumes "is_group m ra th es n0 w p e cs"
  shows "get_planner w p =
           Some (planner_of m th e (GetSuccessors m e) (map (polyline m ra th) cs))"
  using assms by (auto simp: is_group_def get_planner_def split: option.splits)

lemma polyline_length:
  assumes "samples_ok m ra cs" and "S \<in> set cs"
  shows "2 \<le> length (polyline m ra th S)"
proof -
  from assms have "sample_waypoints m ra S = Some (Inr (sampled m ra S))"
    by (simp add: samples_ok_def list_all_iff)
  from sample_waypoints_length [OF this] show ?thesis
    by (simp add: polyline_def WaypointVector2FVectorArray_def)
qed

subsection \<open>Removing actors\<close>

lemma destroy_all_append:
  "destroy_all (ps @ qs) w = destroy_all qs (destroy_all ps w)"
  by (induction ps w rule: destroy_all.induct) simp_all

lemma destroy_all_actors:
  "actors (destroy_all ps w) a = (if Some a \<in> set ps then None else actors w a)"
  by (induction ps w rule: destroy_all.induct) (auto simp: Destroy_def)

lemma AddSpawners_no_planners:
  "RoutePlanners (fst s) = [] \<Longrightarrow> AddSpawners s = Inr s"
  by (simp add: AddSpawners_def)

lemma DebugRoutes_no_planners:
  "RoutePlanners (fst s) = [] \<Longrightarrow> DebugRoutes s = Inr s"
  by (simp add: DebugRoutes_def)

subsection \<open>The examples evaluated\<close>

lemma map_B_road2: "GetRoad map_B (GetRoadId map_B (WP 12 (- 1) 0)) = Some \<lparr>Length = 20\<rparr>"
  by (simp add: map_B_def example_map_def)



lemma map_branching_road2:
  "GetRoad map_branching (GetRoadId map_branching (WP 12 (- 1) 0)) = Some \<lparr>Length = 20\<rparr>"
  by (simp add: map_branching_def example_map_def)

lemma map_branching_loop:
  "sample_loop map_branching (WP 12 (- 1) 0) 25 (Length \<lparr>Length = 20\<rparr>) 25 [WP 12 (- 1) 0] =
     Some (Inr [WP 12 (- 1) 0])"
  by (simp add: sample_loop_done)

lemma eval_shared_13:
  "sample_waypoints map_shared 10 (WP 13 (- 1) 0) =
     Some (Inr [WP 13 (- 1) 0, WP 13 (- 1) (49 / 10)])"
  by (simp add: sample_waypoints_def map_shared_def example_map_def sample_loop_done
        sample_loop_step float_add_10_10 final_sample_def final_distance_def clamp_def)

lemma eval_shared_14:
  "sample_waypoints map_shared 10 (WP 14 (- 1) 0) =
     Some (Inr [WP 14 (- 1) 0, WP 14 (- 1) 10, WP 14 (- 1) (199 / 10)])"
  by (simp add: sample_waypoints_def map_shared_def example_map_def sample_loop_done
        sample_loop_step float_add_10_10 final_sample_def final_distance_def clamp_def)

lemma shared_fields:
  "GenerateLaneEnd map_shared = [WP 11 (- 1) 30, WP 12 (- 1) 30]"
  "GetSuccessors map_shared (WP 11 (- 1) 30) = [WP 13 (- 1) 0]"
  "GetSuccessors map_shared (WP 12 (- 1) 30) = [WP 13 (- 1) 0, WP 14 (- 1) 0]"
  "Identifier map_shared (WP r l d) = (r, l)"
  "IsIntersection map_shared (WP r l d) = (r = 13)"
  by (simp_all add: map_shared_def example_map_def Identifier_def)

lemma eval_shared: "BuildRoutes load_shared start_state = Some (Inr shared_state)"
proof -
  have pe: "ParseError load_shared = []" by (simp add: load_shared_def)
  show ?thesis
    unfolding BuildRoutes_iff [OF pe] build_pass_iff
    by (simp add: load_shared_def start_state_def shared_state_def initial_build_state_def
          shared_fields anchor_result_def samples_ok_def eval_shared_13 eval_shared_14
          sampled_eq example_actor_def empty_world_def shared_group_0_def shared_group_1_def
          numeral_2_eq_2)
qed

lemma eval_B_12:
  "sample_waypoints map_B 10 (WP 12 (- 1) 0) =
     Some (Inr [WP 12 (- 1) 0, WP 12 (- 1) 10, WP 12 (- 1) (199 / 10)])"
  by (simp add: sample_waypoints_def map_B_def example_map_def sample_loop_done
        sample_loop_step float_add_10_10 final_sample_def final_distance_def clamp_def)

lemma map_B_fields:
  "GenerateLaneEnd map_B = [WP 11 (- 1) 30, WP 12 (- 1) 20]"
  "GetSuccessors map_B (WP 11 (- 1) 30) = [WP 12 (- 1) 0]"
  "GetSuccessors map_B (WP 12 (- 1) 20) = []"
  "GetNext map_B (WP 12 (- 1) 0) 10 = [WP 12 (- 1) 10]"
  "GetNext map_B (WP 12 (- 1) 0) (199 / 10) = [WP 12 (- 1) (199 / 10)]"
  by (simp_all add: map_B_def example_map_def)

lemma eval_fork_12:
  "sample_waypoints map_fork 10 (WP 12 (- 1) 0) =
     Some (Inr [WP 12 (- 1) 0, WP 12 (- 1) 10, WP 12 (- 1) (199 / 10)])"
  by (simp add: sample_waypoints_def map_fork_def example_map_def sample_loop_done
        sample_loop_step float_add_10_10 final_sample_def final_distance_def clamp_def)

lemma eval_fork_13:
  "sample_waypoints map_fork 10 (WP 13 (- 1) 0) =
     Some (Inr [WP 13 (- 1) 0, WP 13 (- 1) 10, WP 13 (- 1) (199 / 10)])"
  by (simp add: sample_waypoints_def map_fork_def example_map_def sample_loop_done
        sample_loop_step float_add_10_10 final_sample_def final_distance_def clamp_def)

lemma fork_fields:
  "GenerateLaneEnd map_fork = [WP 11 (- 1) 30, WP 12 (- 1) 20, WP 13 (- 1) 20]"
  "GetSuccessors map_fork (WP 11 (- 1) 30) = [WP 12 (- 1) 0, WP 13 (- 1) 0]"
  "GetSuccessors map_fork (WP 12 (- 1) 20) = []"
  "GetSuccessors map_fork (WP 13 (- 1) 20) = []"
  "Identifier map_fork (WP r l d) = (r, l)"
  by (simp_all add: map_fork_def example_map_def Identifier_def)

subsection \<open>The lanes of a pass\<close>

lemma samples_ok_append:
  "samples_ok m ra (xs @ ys) \<longleftrightarrow> samples_ok m ra xs \<and> samples_ok m ra ys"
  by (simp add: samples_ok_def)

lemma anchors_ok_iff:
  "anchors_ok m ra th es bs \<longleftrightarrow> samples_ok m ra (pass_lanes m es (AlreadyVisited bs))"
  by (induction es arbitrary: bs) (simp_all add: samples_ok_append anchor_result_fields)

lemma fold_anchor_lanes:
  "AlreadyVisited (fold (anchor_result m ra th) es bs) =
     AlreadyVisited bs @ map (Identifier m) (pass_lanes m es (AlreadyVisited bs))"
  by (induction es arbitrary: bs) (simp_all add: anchor_result_fields)

lemma fold_anchor_entries:
  "length (Planners (fold (anchor_result m ra th) es bs)) =
     length (Planners bs) + length (pass_lanes m es (AlreadyVisited bs))"
  using fold_anchor_visited(3) [of m ra th es bs] by (simp add: fold_anchor_lanes)

lemma pass_lanes_distinct:
  "distinct vis \<Longrightarrow> distinct (vis @ map (Identifier m) (pass_lanes m es vis))"
proof -
  assume "distinct vis"
  let ?bs = "\<lparr>World = undefined, Planners = [], AlreadyVisited = vis\<rparr>"
  from \<open>distinct vis\<close> have "distinct (AlreadyVisited ?bs)" by simp
  from fold_anchor_visited(1) [OF this, of m 0 0 es] show ?thesis
    by (simp add: fold_anchor_lanes)
qed

lemma pass_lanes_set:
  "set vis \<union> Identifier m ` set (pass_lanes m es vis) =
     set vis \<union> Identifier m ` (\<Union>e\<in>set es. set (GetSuccessors m e))"
proof -
  let ?bs = "\<lparr>World = undefined, Planners = [], AlreadyVisited = vis\<rparr>"
  from fold_anchor_visited(2) [of m 0 0 es ?bs] show ?thesis
    by (simp add: fold_anchor_lanes)
qed

lemma routes_spawned_empty: "next_actor w \<le> n0 \<Longrightarrow> routes_spawned w n0 = 0"
  by (simp add: routes_spawned_def)

lemma fold_anchor_routes:
  "routes_spawned (World (fold (anchor_result m ra th) es bs)) (next_actor (World bs)) =
     length (pass_lanes m es (AlreadyVisited bs))"
proof (induction es arbitrary: bs)
  case Nil
  show ?case by (simp add: routes_spawned_def)
next
  case (Cons e rest)
  let ?bs1 = "anchor_result m ra th e bs"
  let ?w = "World (fold (anchor_result m ra th) rest ?bs1)"
  let ?cs = "contributing m (AlreadyVisited bs) (GetSuccessors m e)"
  let ?n = "next_actor (World bs)"
  have IH: "routes_spawned ?w (next_actor (World ?bs1)) =
      length (pass_lanes m rest (AlreadyVisited ?bs1))"
    by (rule Cons.IH)
  have vis: "AlreadyVisited ?bs1 = AlreadyVisited bs @ map (Identifier m) ?cs"
    by (simp add: anchor_result_fields)
  show ?case
  proof (cases "?cs = []")
    case True
    then have "?bs1 = bs" by (simp add: anchor_result_def)
    with IH True show ?thesis by simp
  next
    case False
    then have n1: "next_actor (World ?bs1) = Suc ?n" by (simp add: anchor_result_fields)
    then have lt: "?n < next_actor (World ?bs1)" by simp
    have le: "Suc ?n \<le> next_actor ?w"
      using fold_anchor_next [of ?bs1 m ra th rest] n1 by simp
    from fold_anchor_actors [OF lt, of m ra th rest] False
    have "routes_of_actor (actors ?w ?n) = length ?cs"
      by (simp add: anchor_result_fields routes_of_actor_def planner_of_def)
    moreover have "routes_spawned ?w ?n =
        routes_of_actor (actors ?w ?n) + routes_spawned ?w (Suc ?n)"
      using le by (simp add: routes_spawned_def sum.atLeast_Suc_lessThan)
    ultimately show ?thesis
      using IH by (simp add: n1 vis)
  qed
qed


subsection \<open>The stepping loop in binary32\<close>

lemma float_add_eval:
  assumes "2 powi e \<le> \<bar>a + b\<bar>" and "\<bar>a + b\<bar> < 2 powi (e + 1)" and "- 126 \<le> e"
    and "\<bar>a + b\<bar> \<le> 2 ^ 25"
    and "round_to_even ((a + b) / 2 powi (e - 23)) = n"
  shows "float_add a b = of_int n * 2 powi (e - 23)"
proof -
  have "(0::real) < 2 powi e" by simp
  with assms(1) have "a + b \<noteq> 0" by linarith
  with float32_exponent_eq [OF assms(1-3)] float32_small [OF assms(4)] assms(5)
  show ?thesis
    by (simp add: float_add_def round_float32_def float32_ulp_def)
qed

text \<open>
  The step \<open>0.3f\<close> is \<open>10066330 / 2^25\<close>. Added up in binary32 it reaches
  \<open>100663288 / 2^25\<close>, just below 3, with the tenth addition: on a lane of length 3
  the stepping loop takes ten samples, where exact addition would take nine.
\<close>

lemma float_add_steps:
  "float_add (10066330 / 33554432) (10066330 / 33554432) = 20132660 / 33554432"
  "float_add (20132660 / 33554432) (10066330 / 33554432) = 30198990 / 33554432"
  "float_add (30198990 / 33554432) (10066330 / 33554432) = 40265320 / 33554432"
  "float_add (40265320 / 33554432) (10066330 / 33554432) = 50331648 / 33554432"
  "float_add (50331648 / 33554432) (10066330 / 33554432) = 60397976 / 33554432"
  "float_add (60397976 / 33554432) (10066330 / 33554432) = 70464304 / 33554432"
  "float_add (70464304 / 33554432) (10066330 / 33554432) = 80530632 / 33554432"
  "float_add (80530632 / 33554432) (10066330 / 33554432) = 90596960 / 33554432"
  "float_add (90596960 / 33554432) (10066330 / 33554432) = 100663288 / 33554432"
  "float_add (100663288 / 33554432) (10066330 / 33554432) = 110729616 / 33554432"
proof -
  show "float_add (10066330 / 33554432) (10066330 / 33554432) = 20132660 / 33554432"
    by (rule float_add_eval [where e = "- 1" and n = 10066330, THEN trans])
       (simp_all add: power_int_def power_divide round_to_even_def)
  show "float_add (20132660 / 33554432) (10066330 / 33554432) = 30198990 / 33554432"
    by (rule float_add_eval [where e = "- 1" and n = 15099495, THEN trans])
       (simp_all add: power_int_def power_divide round_to_even_def)
  show "float_add (30198990 / 33554432) (10066330 / 33554432) = 40265320 / 33554432"
    by (rule float_add_eval [where e = 0 and n = 10066330, THEN trans])
       (simp_all add: power_int_def power_divide round_to_even_def)
  show "float_add (40265320 / 33554432) (10066330 / 33554432) = 50331648 / 33554432"
    by (rule float_add_eval [where e = 0 and n = 12582912, THEN trans])
       (simp_all add: power_int_def power_divide round_to_even_def)
  show "float_add (50331648 / 33554432) (10066330 / 33554432) = 60397976 / 33554432"
    by (rule float_add_eval [where e = 0 and n = 15099494, THEN trans])
       (simp_all add: power_int_def power_divide round_to_even_def)
  show "float_add (60397976 / 33554432) (10066330 / 33554432) = 70464304 / 33554432"
    by (rule float_add_eval [where e = 1 and n = 8808038, THEN trans])
       (simp_all add: power_int_def power_divide round_to_even_def)
  show "float_add (70464304 / 33554432) (10066330 / 33554432) = 80530632 / 33554432"
    by (rule float_add_eval [where e = 1 and n = 10066329, THEN trans])
       (simp_all add: power_int_def power_divide round_to_even_def)
  show "float_add (80530632 / 33554432) (10066330 / 33554432) = 90596960 / 33554432"
    by (rule float_add_eval [where e = 1 and n = 11324620, THEN trans])
       (simp_all add: power_int_def power_divide round_to_even_def)
  show "float_add (90596960 / 33554432) (10066330 / 33554432) = 100663288 / 33554432"
    by (rule float_add_eval [where e = 1 and n = 12582911, THEN trans])
       (simp_all add: power_int_def power_divide round_to_even_def)
  show "float_add (100663288 / 33554432) (10066330 / 33554432) = 110729616 / 33554432"
    by (rule float_add_eval [where e = 1 and n = 13841202, THEN trans])
       (simp_all add: power_int_def power_divide round_to_even_def)
qed

lemma sample_loop_ten_samples:
  assumes single: "\<And>d. length (GetNext m S d) = 1"
  shows "sample_loop m S (10066330 / 33554432) 3 (10066330 / 33554432) ws =
           Some (Inr (ws @ map (\<lambda>d. GetNext m S d ! 0)
             [10066330 / 33554432,
              20132660 / 33554432,
              30198990 / 33554432,
              40265320 / 33554432,
              50331648 / 33554432,
              60397976 / 33554432,
              70464304 / 33554432,
              80530632 / 33554432,
              90596960 / 33554432,
              100663288 / 33554432]))"
proof -
  define d1 :: real where "d1 = 10066330 / 33554432"
  define d2 :: real where "d2 = 20132660 / 33554432"
  define d3 :: real where "d3 = 30198990 / 33554432"
  define d4 :: real where "d4 = 40265320 / 33554432"
  define d5 :: real where "d5 = 50331648 / 33554432"
  define d6 :: real where "d6 = 60397976 / 33554432"
  define d7 :: real where "d7 = 70464304 / 33554432"
  define d8 :: real where "d8 = 80530632 / 33554432"
  define d9 :: real where "d9 = 90596960 / 33554432"
  define d10 :: real where "d10 = 100663288 / 33554432"
  define d11 :: real where "d11 = 110729616 / 33554432"
  have add:
    "float_add d1 d1 = d2"
    "float_add d2 d1 = d3"
    "float_add d3 d1 = d4"
    "float_add d4 d1 = d5"
    "float_add d5 d1 = d6"
    "float_add d6 d1 = d7"
    "float_add d7 d1 = d8"
    "float_add d8 d1 = d9"
    "float_add d9 d1 = d10"
    "float_add d10 d1 = d11"
    unfolding d1_def d2_def d3_def d4_def d5_def d6_def d7_def d8_def d9_def d10_def d11_def
    by (rule float_add_steps)+
  have lt: "d1 < 3" "d2 < 3" "d3 < 3" "d4 < 3" "d5 < 3" "d6 < 3" "d7 < 3" "d8 < 3" "d9 < 3" "d10 < 3" and ge: "\<not> d11 < 3"
    unfolding d1_def d2_def d3_def d4_def d5_def d6_def d7_def d8_def d9_def d10_def d11_def by simp_all
  have "sample_loop m S d1 3 d1 ws =
      Some (Inr (ws @ map (\<lambda>d. GetNext m S d ! 0) [d1, d2, d3, d4, d5, d6, d7, d8, d9, d10]))"
    by (simp add: sample_loop_step sample_loop_done add lt ge single)
  then show ?thesis
    unfolding d1_def d2_def d3_def d4_def d5_def d6_def d7_def d8_def d9_def d10_def d11_def .
qed


lemma long_fields:
  "GenerateLaneEnd map_long = [WP 11 (- 1) 30]"
  "GetSuccessors map_long (WP 11 (- 1) 30) = [WP 12 (- 1) 0]"
  "Identifier map_long (WP r l d) = (r, l)"
  "GetRoad map_long (GetRoadId map_long (WP 12 (- 1) 0)) = Some \<lparr>Length = 16777218\<rparr>"
  "length (GetNext map_long wp d) = 1"
  by (simp_all add: map_long_def example_map_def Identifier_def)

text \<open>
  At a step of 1 the build never returns on the long lane: binary32 addition stops
  making progress before the distance reaches the length of the lane.
\<close>

lemma BuildRoutes_never_returns:
  "BuildRoutes load_long ((example_actor 1)\<lparr>RoutePlanners := ps\<rparr>, w) = None"
proof -
  have "sample_loop map_long (WP 12 (- 1) 0) 1 16777218 (of_int 1) [WP 12 (- 1) 0] = None"
    by (rule sample_loop_stalls) (simp_all add: long_fields)
  then have "sample_waypoints map_long 1 (WP 12 (- 1) 0) = None"
    by (simp add: sample_waypoints_def long_fields)
  then have "visit_successor map_long 1 th e sa (WP 12 (- 1) 0) (bs, None) = None"
    if "AlreadyVisited bs = []" for th e sa bs
    using that by (simp add: visit_successor_sample)
  then have "visit_anchor map_long 1 th (WP 11 (- 1) 30) bs = None"
    if "AlreadyVisited bs = []" for th bs
    using that by (simp add: visit_anchor_def long_fields)
  then have "build_pass map_long ((example_actor 1)\<lparr>RoutePlanners := ps\<rparr>, w) = None"
    by (simp add: build_pass_def long_fields initial_build_state_def example_actor_def)
  then show ?thesis
    by (simp add: BuildRoutes_def load_long_def)
qed


subsection \<open>An unvisited successor, and the examples again\<close>

lemma add_positions_invalid:
  assumes "\<And>r. actors (World bs) a \<noteq> Some (RoutePlannerActor r)"
  shows "add_positions m th e sa ident (bs, Some a) wps = Some (Inl Invalid_pointer_dereference)"
proof -
  have "AddRoute (Some a) p pts (World bs) = Inl Invalid_pointer_dereference" for p pts
    using assms
    by (cases "actors (World bs) a")
       (auto simp: AddRoute_def update_planner_def split: actor.splits)
  then show ?thesis by (simp add: add_positions_def materialize_def)
qed

lemma visit_successor_unvisited:
  assumes "Identifier m S \<notin> set (AlreadyVisited (fst st))"
  shows "visit_successor m ra th e sa S st =
     (case sample_waypoints m ra S of
        None \<Rightarrow> None
      | Some (Inl err) \<Rightarrow> Some (Inl err)
      | Some (Inr wps) \<Rightarrow>
          (case snd st of
             None \<Rightarrow>
               Some (Inr (\<lparr>World =
                             (put_actor (next_actor (World (fst st)))
                                (RoutePlannerActor
                                   (planner_of m th e sa [WaypointVector2FVectorArray m wps th]))
                                (World (fst st)))
                             \<lparr>next_actor := Suc (next_actor (World (fst st)))\<rparr>,
                           Planners = Planners (fst st) @ [Some (next_actor (World (fst st)))],
                           AlreadyVisited = AlreadyVisited (fst st) @ [Identifier m S]\<rparr>,
                          Some (next_actor (World (fst st)))))
           | Some a \<Rightarrow>
               (case actors (World (fst st)) a of
                  Some (RoutePlannerActor r) \<Rightarrow>
                    Some (Inr (\<lparr>World =
                                  put_actor a
                                    (RoutePlannerActor
                                       (add_routes [WaypointVector2FVectorArray m wps th] r))
                                    (World (fst st)),
                                Planners = Planners (fst st) @ [Some a],
                                AlreadyVisited = AlreadyVisited (fst st) @ [Identifier m S]\<rparr>,
                               Some a))
                | _ \<Rightarrow> Some (Inl Invalid_pointer_dereference))))"
proof -
  obtain bs rp where st: "st = (bs, rp)" by (cases st)
  show ?thesis
  proof (cases "sample_waypoints m ra S")
    case None
    with assms show ?thesis by (simp add: visit_successor_sample)
  next
    case (Some y)
    show ?thesis
    proof (cases y)
      case (Inl err)
      with Some assms show ?thesis by (simp add: visit_successor_sample)
    next
      case (Inr wps)
      show ?thesis
      proof (cases rp)
        case None
        with Some Inr assms st show ?thesis
          by (simp add: visit_successor_sample add_positions_first)
      next
        case a: (Some a)
        show ?thesis
        proof (cases "\<exists>r. actors (World bs) a = Some (RoutePlannerActor r)")
          case True
          then obtain r where r: "actors (World bs) a = Some (RoutePlannerActor r)" by blast
          with Some Inr assms st a show ?thesis
            by (simp add: visit_successor_sample add_positions_next [OF r])
        next
          case False
          then have inv: "\<And>r. actors (World bs) a \<noteq> Some (RoutePlannerActor r)" by blast
          from False have "(case actors (World bs) a of
                  Some (RoutePlannerActor r) \<Rightarrow> f r
                | _ \<Rightarrow> Some (Inl Invalid_pointer_dereference)) =
              Some (Inl Invalid_pointer_dereference)" for f :: "ARoutePlanner \<Rightarrow> (build_state \<times> actor_ptr) result"
            by (auto split: option.splits actor.splits)
          with Some Inr assms st a show ?thesis
            by (simp add: visit_successor_sample add_positions_invalid [OF inv])
        qed
      qed
    qed
  qed
qed


lemma build_pass_lanes_iff:
  "build_pass m s = Some (Inr bs) \<longleftrightarrow>
     samples_ok m (RoadAccuracy (fst s)) (pass_lanes m (GenerateLaneEnd m) []) \<and>
     bs = fold (anchor_result m (RoadAccuracy (fst s)) (TriggersHeight (fst s)))
            (GenerateLaneEnd m)
            \<lparr>World = snd s, Planners = RoutePlanners (fst s), AlreadyVisited = []\<rparr>"
  by (simp add: build_pass_iff anchors_ok_iff initial_build_state_def)

lemma shared_lanes:
  "pass_lanes map_shared (GenerateLaneEnd map_shared) [] = [WP 13 (- 1) 0, WP 14 (- 1) 0]"
  by (simp add: shared_fields)

lemma shared_samples_ok:
  "samples_ok map_shared 10 [WP 13 (- 1) 0, WP 14 (- 1) 0]"
  by (simp add: samples_ok_def eval_shared_13 eval_shared_14 sampled_eq)

lemma shared_fold:
  "fold (anchor_result map_shared 10 100) (GenerateLaneEnd map_shared)
     \<lparr>World = empty_world, Planners = [], AlreadyVisited = []\<rparr> = shared_pass"
  by (simp add: shared_state_def shared_pass_def shared_fields anchor_result_def
        empty_world_def shared_group_0_def shared_group_1_def numeral_2_eq_2)

lemma shared_loop_14:
  "sample_loop map_shared (WP 14 (- 1) 0) 10 (Length \<lparr>Length = 20\<rparr>) 10 [WP 14 (- 1) 0] =
     Some (Inr [WP 14 (- 1) 0, WP 14 (- 1) 10])"
  by (simp add: sample_loop_step sample_loop_done float_add_10_10 map_shared_def
        example_map_def)

lemma shared_road_14:
  "GetRoad map_shared (GetRoadId map_shared (WP 14 (- 1) 0)) = Some \<lparr>Length = 20\<rparr>"
  "GetNext map_shared (WP 14 (- 1) 0) (final_distance (Length \<lparr>Length = 20\<rparr>)) \<noteq> []"
  by (simp_all add: map_shared_def example_map_def)


section \<open>The claims\<close>

subsection \<open>C1: one array entry per sampled successor\<close>

text \<open>
  C1. The claim is that no route group is in the array more than once. At a fork,
  where the anchor has two unvisited successors, the code puts the anchor's single route
  planner into the array once per sampled successor: the array ends with the same
  pointer twice.
\<close>

theorem fork_planner_listed_twice:
  "BuildRoutes load_fork start_state = Some (Inr fork_state) \<and>
   RoutePlanners (fst fork_state) = [Some 0, Some 0] \<and>
   \<not> distinct (RoutePlanners (fst fork_state)) \<and>
   route_groups (BuildRoutes load_fork start_state) = [Some fork_group, Some fork_group]"
proof -
  have pe: "ParseError load_fork = []" by (simp add: load_fork_def)
  have build: "BuildRoutes load_fork start_state = Some (Inr fork_state)"
    unfolding BuildRoutes_iff [OF pe] build_pass_iff
    by (simp add: load_fork_def start_state_def fork_state_def initial_build_state_def
          fork_fields anchor_result_def samples_ok_def eval_fork_12 eval_fork_13
          sampled_eq example_actor_def empty_world_def fork_group_def)
  have "RoutePlanners (fst fork_state) = [Some 0, Some 0]"
    by (simp add: fork_state_def example_actor_def)
  moreover have "route_groups (Some (Inr fork_state)) = [Some fork_group, Some fork_group]"
    by (simp add: route_groups_def fork_state_def example_actor_def get_planner_def)
  ultimately show ?thesis by (simp add: build)
qed

subsection \<open>C2: the intersection flag\<close>

text \<open>
  C2 (as amended). Every route group that \<open>BuildRoutes\<close> adds to the array belongs to an
  anchor and holds the routes of sampled successors of that anchor; its intersection
  flag is true exactly when some successor of the anchor, sampled or not, is in an
  intersection.
\<close>

theorem intersection_flag_of_all_successors:
  assumes "BuildRoutes ld s = Some (Inr s')" and "ParseError ld = []"
    and "length (RoutePlanners (fst s)) \<le> i" and "i < length (RoutePlanners (fst s'))"
  shows "\<exists>e cs r.
           e \<in> set (GenerateLaneEnd (map_ptr ld)) \<and>
           cs \<noteq> [] \<and> set cs \<subseteq> set (GetSuccessors (map_ptr ld) e) \<and>
           get_planner (snd s') (RoutePlanners (fst s') ! i) = Some r \<and>
           Routes r =
             map (polyline (map_ptr ld) (RoadAccuracy (fst s)) (TriggersHeight (fst s))) cs \<and>
           bIsIntersection r =
             list_ex (IsIntersection (map_ptr ld)) (GetSuccessors (map_ptr ld) e)"
proof -
  from new_entry_is_group [OF assms] obtain e cs where
    g: "is_group (map_ptr ld) (RoadAccuracy (fst s)) (TriggersHeight (fst s))
          (GenerateLaneEnd (map_ptr ld)) (next_actor (snd s)) (snd s')
          (RoutePlanners (fst s') ! i) e cs"
    by blast
  let ?r = "planner_of (map_ptr ld) (TriggersHeight (fst s)) e (GetSuccessors (map_ptr ld) e)
              (map (polyline (map_ptr ld) (RoadAccuracy (fst s)) (TriggersHeight (fst s))) cs)"
  from g have "e \<in> set (GenerateLaneEnd (map_ptr ld))" and "cs \<noteq> []"
    and "set cs \<subseteq> set (GetSuccessors (map_ptr ld) e)"
    by (simp_all add: is_group_def)
  moreover from is_group_planner [OF g]
  have "get_planner (snd s') (RoutePlanners (fst s') ! i) = Some ?r" .
  moreover have "Routes ?r =
      map (polyline (map_ptr ld) (RoadAccuracy (fst s)) (TriggersHeight (fst s))) cs"
    and "bIsIntersection ?r =
      list_ex (IsIntersection (map_ptr ld)) (GetSuccessors (map_ptr ld) e)"
    by (simp_all add: planner_of_def)
  ultimately show ?thesis by blast
qed

theorem intersection_flag_of_all_successors_witness:
  "\<exists>e cs r.
     e \<in> set (GenerateLaneEnd map_shared) \<and>
     cs \<noteq> [] \<and> set cs \<subseteq> set (GetSuccessors map_shared e) \<and>
     get_planner (snd shared_state) (Some 1) = Some r \<and>
     Routes r = map (polyline map_shared 10 100) cs \<and>
     bIsIntersection r = list_ex (IsIntersection map_shared) (GetSuccessors map_shared e)"
proof -
  have "ParseError load_shared = []"
    and "length (RoutePlanners (fst start_state)) \<le> 1"
    and "1 < length (RoutePlanners (fst shared_state))"
    by (simp_all add: load_shared_def start_state_def shared_state_def example_actor_def)
  from intersection_flag_of_all_successors [OF eval_shared this]
  show ?thesis
    by (simp add: load_shared_def start_state_def shared_state_def example_actor_def)
qed

theorem intersection_flag_counterexample:
  "route_groups (BuildRoutes load_shared start_state) =
     [Some shared_group_0, Some shared_group_1] \<and>
   contributing map_shared [(13, - 1)] (GetSuccessors map_shared (WP 12 (- 1) 30)) =
     [WP 14 (- 1) 0] \<and>
   Routes shared_group_1 = map (polyline map_shared 10 100) [WP 14 (- 1) 0] \<and>
   bIsIntersection shared_group_1 \<and>
   \<not> list_ex (IsIntersection map_shared) [WP 14 (- 1) 0] \<and>
   bIsIntersection shared_group_1 \<noteq>
     list_ex (IsIntersection map_shared)
       (contributing map_shared [(13, - 1)] (GetSuccessors map_shared (WP 12 (- 1) 30)))"
  by (simp add: eval_shared route_groups_def shared_state_def get_planner_def
        example_actor_def shared_fields shared_group_1_def planner_of_def)

subsection \<open>C3: no lane is sampled twice\<close>

text \<open>
  C3. A successor whose identifier is in the visited list is skipped and nothing changes.
  A successor whose identifier is not in the list is sampled, once: when the sampling
  does not return or fails, so does the visit; when it yields waypoints, the identifier
  is appended to the list, the one polyline becomes one more route of the anchor's
  planner (spawned when the anchor had none) and the array gets one more entry. A pass
  returns exactly when the sampling of each of its lanes succeeds; it starts from the
  empty list whatever the state before; the identifiers of the lanes it samples are
  pairwise distinct and are the identifiers of all successors of all anchors; the final
  list holds exactly them; and the array and the routes of the planners spawned in the
  pass have each grown by one per sampled lane.
\<close>

theorem no_lane_sampled_twice:
  "(Identifier m S \<in> set (AlreadyVisited (fst st)) \<longrightarrow>
      visit_successor m ra th e sa S st = Some (Inr st)) \<and>
   (Identifier m S \<notin> set (AlreadyVisited (fst st)) \<longrightarrow>
      visit_successor m ra th e sa S st =
         (case sample_waypoints m ra S of
            None \<Rightarrow> None
          | Some (Inl err) \<Rightarrow> Some (Inl err)
          | Some (Inr wps) \<Rightarrow>
              (case snd st of
                 None \<Rightarrow>
                   Some (Inr (\<lparr>World =
                                 (put_actor (next_actor (World (fst st)))
                                    (RoutePlannerActor
                                       (planner_of m th e sa [WaypointVector2FVectorArray m wps th]))
                                    (World (fst st)))
                                 \<lparr>next_actor := Suc (next_actor (World (fst st)))\<rparr>,
                               Planners = Planners (fst st) @ [Some (next_actor (World (fst st)))],
                               AlreadyVisited = AlreadyVisited (fst st) @ [Identifier m S]\<rparr>,
                              Some (next_actor (World (fst st)))))
               | Some a \<Rightarrow>
                   (case actors (World (fst st)) a of
                      Some (RoutePlannerActor r) \<Rightarrow>
                        Some (Inr (\<lparr>World =
                                      put_actor a
                                        (RoutePlannerActor
                                           (add_routes [WaypointVector2FVectorArray m wps th] r))
                                        (World (fst st)),
                                    Planners = Planners (fst st) @ [Some a],
                                    AlreadyVisited = AlreadyVisited (fst st) @ [Identifier m S]\<rparr>,
                                   Some a))
                    | _ \<Rightarrow> Some (Inl Invalid_pointer_dereference))))) \<and>
   (build_pass m s = Some (Inr bs) \<longleftrightarrow>
      samples_ok m (RoadAccuracy (fst s)) (pass_lanes m (GenerateLaneEnd m) []) \<and>
      bs = fold (anchor_result m (RoadAccuracy (fst s)) (TriggersHeight (fst s)))
             (GenerateLaneEnd m)
             \<lparr>World = snd s, Planners = RoutePlanners (fst s), AlreadyVisited = []\<rparr>) \<and>
   AlreadyVisited
     (fold (anchor_result m (RoadAccuracy (fst s)) (TriggersHeight (fst s)))
        (GenerateLaneEnd m)
        \<lparr>World = snd s, Planners = RoutePlanners (fst s), AlreadyVisited = []\<rparr>) =
     map (Identifier m) (pass_lanes m (GenerateLaneEnd m) []) \<and>
   distinct (map (Identifier m) (pass_lanes m (GenerateLaneEnd m) [])) \<and>
   set (map (Identifier m) (pass_lanes m (GenerateLaneEnd m) [])) =
     Identifier m ` (\<Union>e\<in>set (GenerateLaneEnd m). set (GetSuccessors m e)) \<and>
   length (Planners
     (fold (anchor_result m (RoadAccuracy (fst s)) (TriggersHeight (fst s)))
        (GenerateLaneEnd m)
        \<lparr>World = snd s, Planners = RoutePlanners (fst s), AlreadyVisited = []\<rparr>)) =
     length (RoutePlanners (fst s)) + length (pass_lanes m (GenerateLaneEnd m) []) \<and>
   routes_spawned
     (World
        (fold (anchor_result m (RoadAccuracy (fst s)) (TriggersHeight (fst s)))
           (GenerateLaneEnd m)
           \<lparr>World = snd s, Planners = RoutePlanners (fst s), AlreadyVisited = []\<rparr>))
     (next_actor (snd s)) =
     length (pass_lanes m (GenerateLaneEnd m) [])"
proof -
  let ?init = "\<lparr>World = snd s, Planners = RoutePlanners (fst s), AlreadyVisited = []\<rparr>"
  let ?f = "anchor_result m (RoadAccuracy (fst s)) (TriggersHeight (fst s))"
  let ?lanes = "pass_lanes m (GenerateLaneEnd m) []"
  have skip: "Identifier m S \<in> set (AlreadyVisited (fst st)) \<longrightarrow>
      visit_successor m ra th e sa S st = Some (Inr st)"
    by (simp add: visit_successor_skip)
  note sample = visit_successor_unvisited [of m S st ra th e sa]
  note pass = build_pass_lanes_iff [of m s bs]
  have vis: "AlreadyVisited (fold ?f (GenerateLaneEnd m) ?init) = map (Identifier m) ?lanes"
    by (simp add: fold_anchor_lanes)
  have dis: "distinct (map (Identifier m) ?lanes)"
    using pass_lanes_distinct [of "[]" m "GenerateLaneEnd m"] by simp
  have all: "set (map (Identifier m) ?lanes) =
      Identifier m ` (\<Union>e\<in>set (GenerateLaneEnd m). set (GetSuccessors m e))"
    using pass_lanes_set [of "[]" m "GenerateLaneEnd m"] by simp
  have len: "length (Planners (fold ?f (GenerateLaneEnd m) ?init)) =
      length (RoutePlanners (fst s)) + length ?lanes"
    by (simp add: fold_anchor_entries)
  have routes: "routes_spawned (World (fold ?f (GenerateLaneEnd m) ?init)) (next_actor (snd s)) =
      length ?lanes"
    using fold_anchor_routes [of m "RoadAccuracy (fst s)" "TriggersHeight (fst s)"
        "GenerateLaneEnd m" ?init]
    by simp
  from skip sample pass vis dis all len routes show ?thesis by blast
qed

theorem no_lane_sampled_twice_witness:
  "visit_successor map_shared 10 100 (WP 12 (- 1) 30) [WP 13 (- 1) 0, WP 14 (- 1) 0]
     (WP 13 (- 1) 0) (visited_13, None) = Some (Inr (visited_13, None)) \<and>
   visit_successor map_shared 10 100 (WP 11 (- 1) 30) [WP 13 (- 1) 0] (WP 13 (- 1) 0)
     (\<lparr>World = empty_world, Planners = [], AlreadyVisited = []\<rparr>, None) =
     Some (Inr shared_first) \<and>
   build_pass map_shared start_state = Some (Inr shared_pass) \<and>
   AlreadyVisited shared_pass = [(13, - 1), (14, - 1)] \<and>
   length (Planners shared_pass) = 0 + 2 \<and>
   routes_spawned (World shared_pass) 0 = 2"
proof -
  note T1 = no_lane_sampled_twice
    [where m = map_shared and S = "WP 13 (- 1) 0" and st = "(visited_13, None)"
       and ra = 10 and th = 100 and e = "WP 12 (- 1) 30"
       and sa = "[WP 13 (- 1) 0, WP 14 (- 1) 0]" and s = start_state and bs = shared_pass]
  have "Identifier map_shared (WP 13 (- 1) 0) \<in> set (AlreadyVisited (fst (visited_13, None)))"
    by (simp add: shared_fields visited_13_def)
  with T1 have skip: "visit_successor map_shared 10 100 (WP 12 (- 1) 30)
     [WP 13 (- 1) 0, WP 14 (- 1) 0] (WP 13 (- 1) 0) (visited_13, None) =
     Some (Inr (visited_13, None))"
    by blast
  let ?st = "(\<lparr>World = empty_world, Planners = [], AlreadyVisited = []\<rparr>, None :: actor_ptr)"
  note T2 = no_lane_sampled_twice
    [where m = map_shared and S = "WP 13 (- 1) 0" and st = ?st
       and ra = 10 and th = 100 and e = "WP 11 (- 1) 30"
       and sa = "[WP 13 (- 1) 0]" and s = start_state and bs = shared_pass]
  have "Identifier map_shared (WP 13 (- 1) 0) \<notin> set (AlreadyVisited (fst ?st))"
    by simp
  with T2 have "visit_successor map_shared 10 100 (WP 11 (- 1) 30) [WP 13 (- 1) 0]
      (WP 13 (- 1) 0) ?st =
      (case sample_waypoints map_shared 10 (WP 13 (- 1) 0) of
        None \<Rightarrow> None
      | Some (Inl err) \<Rightarrow> Some (Inl err)
      | Some (Inr wps) \<Rightarrow>
          (case snd ?st of
             None \<Rightarrow>
               Some (Inr (\<lparr>World =
                             (put_actor (next_actor (World (fst ?st)))
                                (RoutePlannerActor
                                   (planner_of map_shared 100 (WP 11 (- 1) 30) [WP 13 (- 1) 0]
                                      [WaypointVector2FVectorArray map_shared wps 100]))
                                (World (fst ?st)))
                             \<lparr>next_actor := Suc (next_actor (World (fst ?st)))\<rparr>,
                           Planners = Planners (fst ?st) @ [Some (next_actor (World (fst ?st)))],
                           AlreadyVisited =
                             AlreadyVisited (fst ?st) @ [Identifier map_shared (WP 13 (- 1) 0)]\<rparr>,
                          Some (next_actor (World (fst ?st)))))
           | Some a \<Rightarrow>
               (case actors (World (fst ?st)) a of
                  Some (RoutePlannerActor r) \<Rightarrow>
                    Some (Inr (\<lparr>World =
                                  put_actor a
                                    (RoutePlannerActor
                                       (add_routes
                                          [WaypointVector2FVectorArray map_shared wps 100] r))
                                    (World (fst ?st)),
                                Planners = Planners (fst ?st) @ [Some a],
                                AlreadyVisited =
                                  AlreadyVisited (fst ?st) @
                                  [Identifier map_shared (WP 13 (- 1) 0)]\<rparr>,
                               Some a))
                | _ \<Rightarrow> Some (Inl Invalid_pointer_dereference))))"
    by blast
  then have first: "visit_successor map_shared 10 100 (WP 11 (- 1) 30) [WP 13 (- 1) 0]
      (WP 13 (- 1) 0) ?st = Some (Inr shared_first)"
    by (simp add: eval_shared_13 shared_first_def shared_group_0_def polyline_eq
          shared_fields empty_world_def)
  have ok: "samples_ok map_shared (RoadAccuracy (fst start_state))
      (pass_lanes map_shared (GenerateLaneEnd map_shared) [])"
    using shared_samples_ok by (simp add: shared_lanes start_state_def example_actor_def)
  have fold: "shared_pass =
      fold (anchor_result map_shared (RoadAccuracy (fst start_state))
              (TriggersHeight (fst start_state)))
        (GenerateLaneEnd map_shared)
        \<lparr>World = snd start_state, Planners = RoutePlanners (fst start_state),
           AlreadyVisited = []\<rparr>"
    using shared_fold by (simp add: start_state_def example_actor_def)
  from T1 ok fold have pass: "build_pass map_shared start_state = Some (Inr shared_pass)"
    by blast
  from T1 have "AlreadyVisited
     (fold (anchor_result map_shared (RoadAccuracy (fst start_state))
              (TriggersHeight (fst start_state)))
        (GenerateLaneEnd map_shared)
        \<lparr>World = snd start_state, Planners = RoutePlanners (fst start_state),
           AlreadyVisited = []\<rparr>) =
     map (Identifier map_shared) (pass_lanes map_shared (GenerateLaneEnd map_shared) [])"
    by blast
  then have vis: "AlreadyVisited shared_pass = [(13, - 1), (14, - 1)]"
    unfolding fold [symmetric] by (simp add: shared_lanes shared_fields)
  from T1 have "length (Planners
     (fold (anchor_result map_shared (RoadAccuracy (fst start_state))
              (TriggersHeight (fst start_state)))
        (GenerateLaneEnd map_shared)
        \<lparr>World = snd start_state, Planners = RoutePlanners (fst start_state),
           AlreadyVisited = []\<rparr>)) =
     length (RoutePlanners (fst start_state)) +
     length (pass_lanes map_shared (GenerateLaneEnd map_shared) [])"
    by blast
  then have len: "length (Planners shared_pass) = 0 + 2"
    unfolding fold [symmetric]
    by (simp add: shared_lanes start_state_def example_actor_def)
  from T1 have "routes_spawned
     (World
        (fold (anchor_result map_shared (RoadAccuracy (fst start_state))
                 (TriggersHeight (fst start_state)))
           (GenerateLaneEnd map_shared)
           \<lparr>World = snd start_state, Planners = RoutePlanners (fst start_state),
              AlreadyVisited = []\<rparr>))
     (next_actor (snd start_state)) =
     length (pass_lanes map_shared (GenerateLaneEnd map_shared) [])"
    by blast
  then have routes: "routes_spawned (World shared_pass) 0 = 2"
    unfolding fold [symmetric]
    by (simp add: shared_lanes start_state_def empty_world_def)
  from skip first pass vis len routes show ?thesis by blast
qed

subsection \<open>C4: at least two points\<close>

text \<open>
  C4. The check on the size of the waypoint vector never fails, neither for one lane nor
  in a whole build, and every sampled lane has at least two waypoints and as many
  positions. When the stepping loop ends and \<open>GetNext\<close> answers at the final distance,
  the lane is sampled, with at least two waypoints. Every route of every group the
  build adds to the array has at least two points.
\<close>

theorem polylines_have_two_points:
  "sample_waypoints m ra S \<noteq> Some (Inl Check_Waypoints_size_ge_2) \<and>
   (\<forall>wps. sample_waypoints m ra S = Some (Inr wps) \<longrightarrow>
      2 \<le> length wps \<and> length (WaypointVector2FVectorArray m wps th) = length wps) \<and>
   (\<forall>r ws. GetRoad m (GetRoadId m S) = Some r \<and>
      sample_loop m S ra (Length r) ra [S] = Some (Inr ws) \<and>
      GetNext m S (final_distance (Length r)) \<noteq> [] \<longrightarrow>
      (\<exists>wps. sample_waypoints m ra S = Some (Inr wps) \<and> 2 \<le> length wps)) \<and>
   BuildRoutes ld s \<noteq> Some (Inl Check_Waypoints_size_ge_2) \<and>
   (\<forall>s' i. BuildRoutes ld s = Some (Inr s') \<and> ParseError ld = [] \<and>
      length (RoutePlanners (fst s)) \<le> i \<and> i < length (RoutePlanners (fst s')) \<longrightarrow>
      (\<exists>r. get_planner (snd s') (RoutePlanners (fst s') ! i) = Some r \<and>
           Routes r \<noteq> [] \<and> list_all (\<lambda>route. 2 \<le> length route) (Routes r)))"
proof -
  have a: "sample_waypoints m ra S \<noteq> Some (Inl Check_Waypoints_size_ge_2)"
    using sample_waypoints_error [of m ra S Check_Waypoints_size_ge_2]
    by (auto simp: build_errors_def)
  have b: "\<forall>wps. sample_waypoints m ra S = Some (Inr wps) \<longrightarrow>
      2 \<le> length wps \<and> length (WaypointVector2FVectorArray m wps th) = length wps"
    by (auto simp: WaypointVector2FVectorArray_def dest: sample_waypoints_length)
  have c: "\<exists>wps. sample_waypoints m ra S = Some (Inr wps) \<and> 2 \<le> length wps"
    if "GetRoad m (GetRoadId m S) = Some r"
      and "sample_loop m S ra (Length r) ra [S] = Some (Inr ws)"
      and "GetNext m S (final_distance (Length r)) \<noteq> []" for r ws
  proof -
    from sample_loop_result [OF that(2)] have ne: "ws \<noteq> []" by auto
    from that(3) obtain wp rest where
      "GetNext m S (final_distance (Length r)) = wp # rest"
      by (cases "GetNext m S (final_distance (Length r))") auto
    with that(1,2) ne have wps: "sample_waypoints m ra S = Some (Inr (ws @ [wp]))"
      by (simp add: sample_waypoints_def final_sample_result)
    from sample_waypoints_length [OF wps] wps show ?thesis by blast
  qed
  have d: "BuildRoutes ld s \<noteq> Some (Inl Check_Waypoints_size_ge_2)"
    using BuildRoutes_error [of ld s Check_Waypoints_size_ge_2]
    by (auto simp: build_errors_def)
  have f: "\<exists>r. get_planner (snd s') (RoutePlanners (fst s') ! i) = Some r \<and>
           Routes r \<noteq> [] \<and> list_all (\<lambda>route. 2 \<le> length route) (Routes r)"
    if "BuildRoutes ld s = Some (Inr s')" and "ParseError ld = []"
      and "length (RoutePlanners (fst s)) \<le> i" and "i < length (RoutePlanners (fst s'))"
    for s' i
  proof -
    from new_entry_is_group [OF that] obtain e cs where
      g: "is_group (map_ptr ld) (RoadAccuracy (fst s)) (TriggersHeight (fst s))
            (GenerateLaneEnd (map_ptr ld)) (next_actor (snd s)) (snd s')
            (RoutePlanners (fst s') ! i) e cs"
      by blast
    let ?routes = "map (polyline (map_ptr ld) (RoadAccuracy (fst s)) (TriggersHeight (fst s))) cs"
    let ?r = "planner_of (map_ptr ld) (TriggersHeight (fst s)) e
                (GetSuccessors (map_ptr ld) e) ?routes"
    from g have ok: "samples_ok (map_ptr ld) (RoadAccuracy (fst s)) cs" and ne: "cs \<noteq> []"
      by (simp_all add: is_group_def)
    have "list_all (\<lambda>route. 2 \<le> length route) ?routes"
      using polyline_length [OF ok] by (simp add: list_all_iff)
    moreover have "Routes ?r = ?routes" by (simp add: planner_of_def)
    moreover note is_group_planner [OF g] ne
    ultimately show ?thesis by simp
  qed
  from a b c d f show ?thesis by blast
qed

theorem polylines_have_two_points_witness:
  "sample_waypoints map_shared 10 (WP 14 (- 1) 0) \<noteq> Some (Inl Check_Waypoints_size_ge_2) \<and>
   (\<exists>wps. sample_waypoints map_shared 10 (WP 14 (- 1) 0) = Some (Inr wps) \<and>
          2 \<le> length wps) \<and>
   2 \<le> length (sampled map_shared 10 (WP 14 (- 1) 0)) \<and>
   BuildRoutes load_shared start_state \<noteq> Some (Inl Check_Waypoints_size_ge_2) \<and>
   (\<exists>r. get_planner (snd shared_state) (Some 1) = Some r \<and>
        Routes r \<noteq> [] \<and> list_all (\<lambda>route. 2 \<le> length route) (Routes r))"
proof -
  note T = polylines_have_two_points
    [of map_shared 10 "WP 14 (- 1) 0" 100 load_shared start_state]
  have pre: "BuildRoutes load_shared start_state = Some (Inr shared_state) \<and>
      ParseError load_shared = [] \<and>
      length (RoutePlanners (fst start_state)) \<le> 1 \<and>
      1 < length (RoutePlanners (fst shared_state))"
  proof -
    have "ParseError load_shared = []"
      and "length (RoutePlanners (fst start_state)) \<le> 1"
      and "1 < length (RoutePlanners (fst shared_state))"
      by (simp_all add: load_shared_def start_state_def shared_state_def example_actor_def)
    with eval_shared show ?thesis by blast
  qed
  with T have "\<exists>r. get_planner (snd shared_state) (RoutePlanners (fst shared_state) ! 1) =
         Some r \<and> Routes r \<noteq> [] \<and> list_all (\<lambda>route. 2 \<le> length route) (Routes r)"
    by blast
  then have g: "\<exists>r. get_planner (snd shared_state) (Some 1) = Some r \<and>
        Routes r \<noteq> [] \<and> list_all (\<lambda>route. 2 \<le> length route) (Routes r)"
    by (simp add: shared_state_def example_actor_def)
  from T shared_road_14 shared_loop_14
  have p: "\<exists>wps. sample_waypoints map_shared 10 (WP 14 (- 1) 0) = Some (Inr wps) \<and>
      2 \<le> length wps"
    by blast
  then have q: "2 \<le> length (sampled map_shared 10 (WP 14 (- 1) 0))"
    by (auto simp: sampled_eq)
  from T have
    "sample_waypoints map_shared 10 (WP 14 (- 1) 0) \<noteq> Some (Inl Check_Waypoints_size_ge_2)"
    and "BuildRoutes load_shared start_state \<noteq> Some (Inl Check_Waypoints_size_ge_2)"
    by blast+
  with p q g show ?thesis by blast
qed

subsection \<open>C5: the distance of the final sample\<close>




subsection \<open>C6: a step that is not shorter than the lane\<close>

text \<open>
  C6. When the step is at least the lane length, the stepping loop adds nothing to the
  start point, whatever \<open>GetNext\<close> answers, and the sampled lane has exactly two points:
  the start point and the final sample (when \<open>GetNext\<close> yields one).
\<close>

theorem short_lane_two_points:
  assumes "GetRoad m (GetRoadId m Successor) = Some r" and "Length r \<le> ra"
  shows "sample_loop m Successor ra (Length r) ra [Successor] = Some (Inr [Successor]) \<and>
         sample_waypoints m ra Successor =
           (case GetNext m Successor (final_distance (Length r)) of
              [] \<Rightarrow> Some (Inl Vector_index_out_of_range)
            | wp # _ \<Rightarrow> Some (Inr [Successor, wp])) \<and>
         (\<forall>wps. sample_waypoints m ra Successor = Some (Inr wps) \<longrightarrow>
            length (WaypointVector2FVectorArray m wps th) = 2)"
proof -
  have loop: "sample_loop m Successor ra (Length r) ra [Successor] = Some (Inr [Successor])"
    using assms(2) by (simp add: sample_loop_done)
  have res: "sample_waypoints m ra Successor =
           (case GetNext m Successor (final_distance (Length r)) of
              [] \<Rightarrow> Some (Inl Vector_index_out_of_range)
            | wp # _ \<Rightarrow> Some (Inr [Successor, wp]))"
    using assms(1) loop
    by (simp add: sample_waypoints_def final_sample_result split: list.splits)
  have "length (WaypointVector2FVectorArray m wps th) = 2"
    if "sample_waypoints m ra Successor = Some (Inr wps)" for wps
    using that unfolding res
    by (auto simp: WaypointVector2FVectorArray_def split: list.splits)
  with loop res show ?thesis by blast
qed

theorem short_lane_two_points_witness:
  "sample_loop map_B (WP 12 (- 1) 0) 25 20 25 [WP 12 (- 1) 0] = Some (Inr [WP 12 (- 1) 0]) \<and>
   sample_waypoints map_B 25 (WP 12 (- 1) 0) =
     Some (Inr [WP 12 (- 1) 0, WP 12 (- 1) (199 / 10)])"
  using short_lane_two_points [OF map_B_road2, of 25 0]
  by (simp add: map_B_def example_map_def final_distance_def clamp_def)

subsection \<open>C7: scenario B\<close>

text \<open>
  C7. Scenario B: the anchors are the ends of lanes A and B, the sole successor of A is
  the lane \<open>S\<close> of length 20, B has no successor, and the step is 10. The build adds
  exactly one route group, for the anchor of A, with exactly one route of exactly three
  points: the start of the lane and the waypoints at the distances 10 and 19.9.
\<close>

theorem scenario_B_one_group_three_points:
  assumes "ParseError ld = []" and "map_ptr ld = m"
    and "RoadAccuracy (fst s) = 10" and "RoutePlanners (fst s) = []"
    and "GenerateLaneEnd m = [A, B]" and "GetSuccessors m A = [S]" and "GetSuccessors m B = []"
    and "GetRoad m (GetRoadId m S) = Some r" and "Length r = 20"
    and "GetNext m S 10 = [w1]" and "GetNext m S (199 / 10) = [w2]"
  shows "BuildRoutes ld s =
           Some (Inr ((fst s)\<lparr>RoutePlanners := [Some (next_actor (snd s))]\<rparr>,
                      (put_actor (next_actor (snd s))
                         (RoutePlannerActor
                            (planner_of m (TriggersHeight (fst s)) A [S]
                               [WaypointVector2FVectorArray m [S, w1, w2]
                                  (TriggersHeight (fst s))]))
                         (snd s))
                      \<lparr>next_actor := Suc (next_actor (snd s))\<rparr>)) \<and>
         route_groups (BuildRoutes ld s) =
           [Some (planner_of m (TriggersHeight (fst s)) A [S]
                    [WaypointVector2FVectorArray m [S, w1, w2] (TriggersHeight (fst s))])] \<and>
         length (WaypointVector2FVectorArray m [S, w1, w2] (TriggersHeight (fst s))) = 3"
proof -
  have loop: "sample_loop m S 10 20 10 [S] = Some (Inr [S, w1])"
    using assms(10) by (simp add: sample_loop_step sample_loop_done float_add_10_10)
  have sample: "sample_waypoints m 10 S = Some (Inr [S, w1, w2])"
    using assms(8,9,11) loop
    by (simp add: sample_waypoints_def final_sample_def final_distance_def clamp_def)
  have build: "BuildRoutes ld s =
           Some (Inr ((fst s)\<lparr>RoutePlanners := [Some (next_actor (snd s))]\<rparr>,
                      (put_actor (next_actor (snd s))
                         (RoutePlannerActor
                            (planner_of m (TriggersHeight (fst s)) A [S]
                               [WaypointVector2FVectorArray m [S, w1, w2]
                                  (TriggersHeight (fst s))]))
                         (snd s))
                      \<lparr>next_actor := Suc (next_actor (snd s))\<rparr>))"
    unfolding BuildRoutes_iff [OF assms(1)] build_pass_iff
    using assms(2-7) sample
    by (simp add: initial_build_state_def anchor_result_def samples_ok_def sampled_eq
          polyline_eq)
  then show ?thesis
    by (simp add: route_groups_def get_planner_def WaypointVector2FVectorArray_def)
qed

theorem scenario_B_one_group_three_points_witness:
  "route_groups (BuildRoutes load_B start_state) =
     [Some \<lparr>bIsIntersection = False, BoxExtent = \<lparr>X = 70, Y = 70, Z = 50\<rparr>,
            ActorRotation = zero_rotator, ActorLocation = \<lparr>X = 30, Y = 0, Z = 100\<rparr>,
            Routes = [[\<lparr>X = 0, Y = 0, Z = 100\<rparr>, \<lparr>X = 10, Y = 0, Z = 100\<rparr>,
                       \<lparr>X = 199 / 10, Y = 0, Z = 100\<rparr>]],
            Probabilities = [1]\<rparr>]"
proof -
  have "ParseError load_B = []" and "map_ptr load_B = map_B"
    and "RoadAccuracy (fst start_state) = 10" and "RoutePlanners (fst start_state) = []"
    and "Length \<lparr>Length = 20\<rparr> = 20"
    by (simp_all add: load_B_def start_state_def example_actor_def)
  from scenario_B_one_group_three_points
    [OF this(1-4) map_B_fields(1-3) map_B_road2 this(5) map_B_fields(4,5)]
  have "route_groups (BuildRoutes load_B start_state) =
     [Some (planner_of map_B (TriggersHeight (fst start_state)) (WP 11 (- 1) 30)
              [WP 12 (- 1) 0]
              [WaypointVector2FVectorArray map_B
                 [WP 12 (- 1) 0, WP 12 (- 1) 10, WP 12 (- 1) (199 / 10)]
                 (TriggersHeight (fst start_state))])]"
    by blast
  then show ?thesis
    by (simp add: planner_of_def WaypointVector2FVectorArray_def FVector_add_def
          map_B_def example_map_def start_state_def example_actor_def)
qed

subsection \<open>C8: a map that fails to load\<close>

text \<open>
  C8 (as amended). When the map fails to load, \<open>BuildRoutes\<close> itself returns the state
  it was given, unchanged. On the editor's rebuild path the routes and the spawners have
  been removed before the build is tried: the hook ends with an empty array of planners,
  every planner the array held is destroyed, and nothing is built.
\<close>

theorem failed_load_after_removal:
  assumes "ParseError ld \<noteq> []"
  shows "BuildRoutes ld s = Some (Inr s) \<and>
         (bGenerateRoutes (fst s) \<longrightarrow>
            PostEditChangeProperty ld (Some ''bGenerateRoutes'') s =
              Some (Inr (RemoveSpawners
                           (RemoveRoutes ((fst s)\<lparr>bGenerateRoutes := False\<rparr>, snd s)))) \<and>
            RoutePlanners
              (fst (RemoveSpawners
                      (RemoveRoutes ((fst s)\<lparr>bGenerateRoutes := False\<rparr>, snd s)))) = [] \<and>
            (\<forall>a. Some a \<in> set (RoutePlanners (fst s)) \<longrightarrow>
               actors (snd (RemoveSpawners
                              (RemoveRoutes ((fst s)\<lparr>bGenerateRoutes := False\<rparr>, snd s)))) a =
                 None))"
proof -
  let ?s1 = "RemoveSpawners (RemoveRoutes ((fst s)\<lparr>bGenerateRoutes := False\<rparr>, snd s))"
  have build: "BuildRoutes ld x = Some (Inr x)" for x
    using assms by (simp add: BuildRoutes_def)
  have empty: "RoutePlanners (fst ?s1) = []"
    by (simp add: RemoveSpawners_def RemoveRoutes_def)
  have gone: "actors (snd ?s1) a = None" if "Some a \<in> set (RoutePlanners (fst s))" for a
    using that by (simp add: RemoveSpawners_def RemoveRoutes_def destroy_all_actors)
  have gen: "on_generate_routes ld ''bGenerateRoutes'' s = Some (Inr ?s1)"
    if "bGenerateRoutes (fst s)"
    using that
    by (simp add: on_generate_routes_def build lift_error_def
          AddSpawners_no_planners [OF empty] DebugRoutes_no_planners [OF empty])
  have "PostEditChangeProperty ld (Some ''bGenerateRoutes'') s = Some (Inr ?s1)"
    if "bGenerateRoutes (fst s)"
    by (simp add: PostEditChangeProperty_def gen [OF that] on_remove_routes_def
          on_show_debug_def on_remove_current_spawners_def)
  with build empty gone show ?thesis by blast
qed

theorem failed_load_after_removal_witness:
  "BuildRoutes failed_load (old_actor, old_world) = Some (Inr (old_actor, old_world)) \<and>
   PostEditChangeProperty failed_load (Some ''bGenerateRoutes'') (old_actor, old_world) =
     Some (Inr (old_actor\<lparr>RoutePlanners := [], bGenerateRoutes := False\<rparr>,
                Destroy 0 old_world)) \<and>
   actors (Destroy 0 old_world) 0 = None"
proof -
  have "ParseError failed_load \<noteq> []" by (simp add: failed_load_def)
  from failed_load_after_removal [OF this, of "(old_actor, old_world)"]
  show ?thesis
    by (simp add: old_actor_def example_actor_def RemoveSpawners_def RemoveRoutes_def)
qed

theorem failed_rebuild_counterexample:
  "ParseError failed_load \<noteq> [] \<and>
   route_groups (Some (Inr (old_actor, old_world))) = [Some new_route_planner] \<and>
   PostEditChangeProperty failed_load (Some ''bGenerateRoutes'') (old_actor, old_world) =
     Some (Inr (old_actor\<lparr>RoutePlanners := [], bGenerateRoutes := False\<rparr>,
                Destroy 0 old_world)) \<and>
   route_groups
     (PostEditChangeProperty failed_load (Some ''bGenerateRoutes'') (old_actor, old_world)) =
     [] \<and>
   get_planner (Destroy 0 old_world) (Some 0) = None"
  by (simp add: PostEditChangeProperty_def on_generate_routes_def BuildRoutes_def
        failed_load_def old_actor_def example_actor_def RemoveSpawners_def RemoveRoutes_def
        AddSpawners_def DebugRoutes_def lift_error_def on_remove_routes_def
        on_show_debug_def on_remove_current_spawners_def route_groups_def get_planner_def
        old_world_def Destroy_def)

subsection \<open>C9: removing the routes twice\<close>

text \<open>
  C9. \<open>RemoveRoutes\<close> always succeeds and leaves the array of planners empty; a second
  call changes nothing more.
\<close>

theorem RemoveRoutes_idempotent:
  "RoutePlanners (fst (RemoveRoutes s)) = [] \<and>
   RoutePlanners (fst (RemoveRoutes (RemoveRoutes s))) = [] \<and>
   RemoveRoutes (RemoveRoutes s) = RemoveRoutes s"
  by (simp add: RemoveRoutes_def)

theorem RemoveRoutes_idempotent_witness:
  "RoutePlanners (fst (RemoveRoutes (old_actor, old_world))) = [] \<and>
   actors (snd (RemoveRoutes (old_actor, old_world))) 0 = None \<and>
   RemoveRoutes (RemoveRoutes (old_actor, old_world)) = RemoveRoutes (old_actor, old_world)"
  using RemoveRoutes_idempotent [of "(old_actor, old_world)"]
  by (simp add: RemoveRoutes_def old_actor_def old_world_def example_actor_def Destroy_def)

subsection \<open>C10: the unchecked final sample\<close>

text \<open>
  C10. Once the stepping loop has ended, the final sample is the first element of what
  \<open>GetNext\<close> answers at the clamped distance: an empty answer is an access out of range,
  and an answer of several waypoints is taken without any check. Inside the loop an
  answer that is not exactly one waypoint fails the check.
\<close>

theorem final_sample_unchecked:
  assumes "GetRoad m (GetRoadId m Successor) = Some r"
    and "sample_loop m Successor ra (Length r) ra [Successor] = Some (Inr wps)"
  shows "final_distance (Length r) = clamp (Length r - 1 / 10) 0 (Length r) \<and>
         sample_waypoints m ra Successor =
           (case GetNext m Successor (final_distance (Length r)) of
              [] \<Rightarrow> Some (Inl Vector_index_out_of_range)
            | wp # rest \<Rightarrow> Some (Inr (wps @ [wp]))) \<and>
         (\<forall>Dist acc. Dist < Length r \<and> length (GetNext m Successor Dist) \<noteq> 1 \<longrightarrow>
            sample_loop m Successor ra (Length r) Dist acc =
              Some (Inl Check_NewWaypoint_size_eq_1))"
proof -
  from sample_loop_result [OF assms(2)] have "wps \<noteq> []" by auto
  then have "sample_waypoints m ra Successor =
           (case GetNext m Successor (final_distance (Length r)) of
              [] \<Rightarrow> Some (Inl Vector_index_out_of_range)
            | wp # rest \<Rightarrow> Some (Inr (wps @ [wp])))"
    using assms by (simp add: sample_waypoints_def final_sample_result split: list.splits)
  then show ?thesis
    by (simp add: final_distance_def sample_loop_step)
qed

theorem final_sample_unchecked_witness:
  "sample_waypoints map_branching 25 (WP 12 (- 1) 0) =
     Some (Inr [WP 12 (- 1) 0, WP 12 (- 1) (199 / 10)]) \<and>
   sample_loop map_branching (WP 12 (- 1) 0) 25 20 10 [WP 12 (- 1) 0] =
     Some (Inl Check_NewWaypoint_size_eq_1)"
proof -
  have "(10::real) < 20 \<and> length (GetNext map_branching (WP 12 (- 1) 0) 10) \<noteq> 1"
    by (simp add: map_branching_def example_map_def)
  with final_sample_unchecked [OF map_branching_road2 map_branching_loop]
  show ?thesis
    by (simp add: map_branching_def example_map_def final_distance_def clamp_def)
qed

end
